theory Spec2Isabelle
  imports Main
begin

section \<open>Python values and built-ins used by the module\<close>

text \<open>
  A string is the list of its characters, a character outside ASCII being the bytes of
  its UTF-8 encoding; the delimiter, the wildcard token and the digits are ASCII, and
  no byte of a longer encoding is an ASCII byte.

  \<open>str.lower\<close> and \<open>str.strip\<close> rest on the tables of Unicode. They are parameters,
  \<open>lower\<close> and \<open>strip\<close>, of every function below that calls them, and every theorem
  holds whatever the two functions are.
\<close>

text \<open>
  \<open>s.split(sep)\<close> and \<open>sep.join(xs)\<close> for a one-character separator, the only kind the
  module uses. Splitting never returns an empty list: the empty string splits into one
  empty piece.
\<close>

fun str_split :: "char \<Rightarrow> string \<Rightarrow> string list" where
  "str_split sep [] = [[]]"
| "str_split sep (c # cs) =
     (if c = sep then [] # str_split sep cs
      else (case str_split sep cs of
              w # ws \<Rightarrow> (c # w) # ws
            | [] \<Rightarrow> [[c]]))"

fun str_join :: "char \<Rightarrow> string list \<Rightarrow> string" where
  "str_join sep [] = []"
| "str_join sep [x] = x"
| "str_join sep (x # y # ys) = x @ sep # str_join sep (y # ys)"

text \<open>\<open>str(i)\<close> for an integer: decimal digits, with a minus sign when negative.\<close>

fun str_nat :: "nat \<Rightarrow> string" where
  "str_nat n =
     (if n < 10 then [''0123456789'' ! n]
      else str_nat (n div 10) @ [''0123456789'' ! (n mod 10)])"

declare str_nat.simps [simp del]

definition str_int :: "int \<Rightarrow> string" where
  "str_int i = (if i < 0 then CHR ''-'' # str_nat (nat (- i)) else str_nat (nat i))"

text \<open>
  The exceptions of \<open>exceptions.py\<close>, and the built-in ones the modelled code can raise.
\<close>

datatype error =
    IndexError
  | KeyError
  | ValueError
  | TypeError
  | AttributeError
  | PartyNicknameEmpty
  | PartyNameNotFound string
  | NoColorForThisParty string
  | DataLineUnreadable string string
  | DataFileMissingOrUnreadable string

text \<open>
  \<open>int(s)\<close> for a string. On a string of ASCII characters: the blanks around it
  are dropped (tab, line feed, vertical tab, form feed, carriage return, space), then
  comes an optional sign and a non-empty run of decimal digits in which single
  underscores may stand between digits; anything else raises \<open>ValueError\<close>. On a
  string with a character outside ASCII, where the digits and blanks of Unicode
  count, the result is that of the parameter \<open>int_unicode\<close>.
\<close>

definition digit_val :: "char \<Rightarrow> nat option" where
  "digit_val c = map_of (zip ''0123456789'' [0, 1, 2, 3, 4, 5, 6, 7, 8, 9]) c"

fun digits_value :: "nat \<Rightarrow> string \<Rightarrow> nat option" where
  "digits_value acc [] = Some acc"
| "digits_value acc [c] =
     (case digit_val c of None \<Rightarrow> None | Some v \<Rightarrow> Some (10 * acc + v))"
| "digits_value acc (c # d # ds) =
     (if c = CHR ''_'' then
        (case digit_val d of None \<Rightarrow> None | Some v \<Rightarrow> digits_value (10 * acc + v) ds)
      else
        (case digit_val c of None \<Rightarrow> None | Some v \<Rightarrow> digits_value (10 * acc + v) (d # ds)))"

definition nat_of_digits :: "string \<Rightarrow> nat option" where
  "nat_of_digits s =
     (case s of
        [] \<Rightarrow> None
      | c # cs \<Rightarrow> (case digit_val c of None \<Rightarrow> None | Some v \<Rightarrow> digits_value v cs))"

definition int_isspace :: "char \<Rightarrow> bool" where
  "int_isspace c =
     (c \<in> set [CHR 0x09, CHR 0x0A, CHR 0x0B, CHR 0x0C, CHR 0x0D, CHR '' ''])"

definition int_strip :: "string \<Rightarrow> string" where
  "int_strip s = rev (dropWhile int_isspace (rev (dropWhile int_isspace s)))"

definition is_ascii :: "string \<Rightarrow> bool" where
  "is_ascii s = list_all (\<lambda>c. \<not> digit7 c) s"

definition py_int :: "(string \<Rightarrow> error + int) \<Rightarrow> string \<Rightarrow> error + int" where
  "py_int int_unicode s =
     (if is_ascii s then
        (case int_strip s of
           [] \<Rightarrow> Inl ValueError
         | c # cs \<Rightarrow>
             if c = CHR ''-'' then
               (case nat_of_digits cs of None \<Rightarrow> Inl ValueError | Some n \<Rightarrow> Inr (- int n))
             else if c = CHR ''+'' then
               (case nat_of_digits cs of None \<Rightarrow> Inl ValueError | Some n \<Rightarrow> Inr (int n))
             else
               (case nat_of_digits (c # cs) of
                  None \<Rightarrow> Inl ValueError
                | Some n \<Rightarrow> Inr (int n)))
      else int_unicode s)"

text \<open>
  A Python dictionary keeps its keys in insertion order; storing under a key that is
  present replaces the value where it stands.
\<close>

fun dict_set :: "('k \<times> 'v) list \<Rightarrow> 'k \<Rightarrow> 'v \<Rightarrow> ('k \<times> 'v) list" where
  "dict_set [] k v = [(k, v)]"
| "dict_set ((k', v') # d) k v =
     (if k' = k then (k, v) # d else (k', v') # dict_set d k v)"

section \<open>location.py\<close>

record Location =
  constituency :: "string option"
  county :: "string option"
  region :: "string option"
  country :: "string option"
  ons_id :: "string option"
  electorate :: "int option"

text \<open>\<open>Location.__init__\<close>, whose first positional argument is \<open>ons_id\<close>.\<close>

definition Location_init ::
  "string option \<Rightarrow> string option \<Rightarrow> string option \<Rightarrow> string option \<Rightarrow>
   string option \<Rightarrow> int option \<Rightarrow> Location" where
  "Location_init oid con cty reg ctr el =
     \<lparr>constituency = con, county = cty, region = reg, country = ctr,
      ons_id = oid, electorate = el\<rparr>"

text \<open>
  \<open>_wildcard_if_none\<close> takes any value; \<open>str_of\<close> is \<open>str\<close> at the value's type (the
  identity on strings, \<open>str_int\<close> on integers).
\<close>

definition wildcard_if_none :: "('a \<Rightarrow> string) \<Rightarrow> 'a option \<Rightarrow> string" where
  "wildcard_if_none str_of potentially_none =
     (case potentially_none of None \<Rightarrow> ''*'' | Some v \<Rightarrow> str_of v)"

definition string_properties_list :: "Location \<Rightarrow> string option list" where
  "string_properties_list L = [ons_id L, constituency L, county L, region L, country L]"

definition repr_Location :: "Location \<Rightarrow> string" where
  "repr_Location L =
     str_join CHR ''|''
       (map (wildcard_if_none (\<lambda>s. s)) (string_properties_list L)
        @ [wildcard_if_none str_int (electorate L)])"

text \<open>
  The loop of \<open>_contains_loc_as_raw_string\<close> over \<open>enumerate(self._string_properties_list)\<close>:
  \<open>i\<close> is the index, and reading a piece the split did not produce raises \<open>IndexError\<close>.
\<close>

fun contains_loop ::
  "(string \<Rightarrow> string) \<Rightarrow> string list \<Rightarrow> nat \<Rightarrow> string option list \<Rightarrow> error + bool" where
  "contains_loop lower pieces i [] = Inr True"
| "contains_loop lower pieces i (None # props) = contains_loop lower pieces (Suc i) props"
| "contains_loop lower pieces i (Some p # props) =
     (if i < length pieces then
        (if lower p \<noteq> lower (pieces ! i) then Inr False
         else contains_loop lower pieces (Suc i) props)
      else Inl IndexError)"

definition contains_loc_as_raw_string ::
  "(string \<Rightarrow> string) \<Rightarrow> Location \<Rightarrow> string \<Rightarrow> error + bool" where
  "contains_loc_as_raw_string lower self raw_string =
     contains_loop lower (str_split CHR ''|'' raw_string) 0 (string_properties_list self)"

definition ge_Location :: "(string \<Rightarrow> string) \<Rightarrow> Location \<Rightarrow> Location \<Rightarrow> error + bool" where
  "ge_Location lower self other =
     contains_loc_as_raw_string lower self (repr_Location other)"

definition le_Location :: "(string \<Rightarrow> string) \<Rightarrow> Location \<Rightarrow> Location \<Rightarrow> error + bool" where
  "le_Location lower self other = ge_Location lower other self"

text \<open>
  \<open>__eq__\<close> accepts any object and reads nothing of it but its \<open>repr\<close>. An object that is
  not a \<open>Location\<close> is therefore given by its \<open>repr\<close> string.
\<close>

datatype object = LocationObj Location | OtherObj string

fun repr_object :: "object \<Rightarrow> string" where
  "repr_object (LocationObj L) = repr_Location L"
| "repr_object (OtherObj r) = r"

definition eq_Location :: "Location \<Rightarrow> object \<Rightarrow> bool" where
  "eq_Location self other = (repr_Location self = repr_object other)"

text \<open>
  \<open>__hash__\<close> is \<open>hash(repr(self))\<close>. The interpreter's string hash changes from one
  process to the next, so it is a parameter \<open>hash_str\<close>.
\<close>

definition hash_Location :: "(string \<Rightarrow> int) \<Rightarrow> Location \<Rightarrow> int" where
  "hash_Location hash_str self = hash_str (repr_Location self)"

definition wildcard_to_nonetype :: "string \<Rightarrow> string option" where
  "wildcard_to_nonetype s = (if s = ''*'' then None else Some s)"

text \<open>
  \<open>from_raw_string\<close> reads the pieces 0 to 5 of the split; a shorter split raises
  \<open>IndexError\<close> at the first missing piece read, which is piece 5.
\<close>

definition from_raw_string :: "(string \<Rightarrow> error + int) \<Rightarrow> string \<Rightarrow> error + Location" where
  "from_raw_string int_unicode raw =
     (let split = map wildcard_to_nonetype (str_split CHR ''|'' raw) in
      if length split \<le> 5 then Inl IndexError
      else
        (case split ! 5 of
           None \<Rightarrow>
             Inr (Location_init (split ! 0) (split ! 1) (split ! 2) (split ! 3) (split ! 4) None)
         | Some e \<Rightarrow>
             (case py_int int_unicode e of
                Inl err \<Rightarrow> Inl err
              | Inr n \<Rightarrow>
                  Inr (Location_init (split ! 0) (split ! 1) (split ! 2) (split ! 3)
                         (split ! 4) (Some n)))))"

text \<open>
  Vocabulary for the statements about \<open>Location\<close>. \<open>bar_free L\<close>: no string field of
  \<open>L\<close> contains the delimiter. \<open>field_matches lower a b\<close>: a filter field \<open>a\<close> is
  unset, or its \<open>lower\<close> is the \<open>lower\<close> of the record field \<open>b\<close> as the canonical string
  renders it.
  \<open>repr_pieces L\<close>: the six pieces that \<open>repr\<close> joins.
  \<open>unset_if_wildcard f\<close>: the field \<open>f\<close>, read as unset when it is the string of the
  wildcard token.
\<close>

definition bar_free :: "Location \<Rightarrow> bool" where
  "bar_free L =
     list_all (\<lambda>f. case f of None \<Rightarrow> True | Some s \<Rightarrow> CHR ''|'' \<notin> set s)
       (string_properties_list L)"

definition field_matches ::
  "(string \<Rightarrow> string) \<Rightarrow> string option \<Rightarrow> string option \<Rightarrow> bool" where
  "field_matches lower a b =
     (case a of None \<Rightarrow> True | Some p \<Rightarrow> lower p = lower (wildcard_if_none (\<lambda>s. s) b))"

definition repr_pieces :: "Location \<Rightarrow> string list" where
  "repr_pieces L =
     map (wildcard_if_none (\<lambda>s. s)) (string_properties_list L)
     @ [wildcard_if_none str_int (electorate L)]"

definition unset_if_wildcard :: "string option \<Rightarrow> string option" where
  "unset_if_wildcard f = (if f = Some ''*'' then None else f)"

section \<open>data_tables.py\<close>

text \<open>
  The tables are Python dictionaries from strings to strings: association lists in
  insertion order, read with \<open>map_of\<close> and written with \<open>dict_set\<close>. The data files
  themselves are not part of the sources; \<open>rows\<close> is what \<open>csv.reader\<close> yields for a file.
  Reading the cell 0 or 1 of a row that is too short raises \<open>IndexError\<close>.
\<close>

type_synonym table = "(string \<times> string) list"

fun read_csv_to_dict :: "string list list \<Rightarrow> table \<Rightarrow> error + table" where
  "read_csv_to_dict [] mapping = Inr mapping"
| "read_csv_to_dict ((k # v # rest) # rows) mapping =
     read_csv_to_dict rows (dict_set mapping k v)"
| "read_csv_to_dict (short_row # rows) mapping = Inl IndexError"

definition nicknames_row ::
  "(string \<Rightarrow> string) \<Rightarrow> (string \<Rightarrow> string) \<Rightarrow> string list \<Rightarrow> table \<times> table \<Rightarrow>
   error + table \<times> table" where
  "nicknames_row lower strip row tables =
     (case row of
        official # short # nicknames \<Rightarrow>
          (let official = strip official;
               short = strip short;
               n1 = dict_set (fst tables) (lower short) official;
               n2 = dict_set n1 (lower official) official;
               s1 = dict_set (snd tables) (lower official) short
           in Inr (foldl (\<lambda>n nickname. dict_set n (lower nickname) official) n2 nicknames, s1))
      | _ \<Rightarrow> Inl IndexError)"

fun nicknames_rows ::
  "(string \<Rightarrow> string) \<Rightarrow> (string \<Rightarrow> string) \<Rightarrow> string list list \<Rightarrow> table \<times> table \<Rightarrow>
   error + table \<times> table" where
  "nicknames_rows lower strip [] tables = Inr tables"
| "nicknames_rows lower strip (row # rows) tables =
     (case nicknames_row lower strip row tables of
        Inl e \<Rightarrow> Inl e
      | Inr tables' \<Rightarrow> nicknames_rows lower strip rows tables')"

definition read_nicknames_file ::
  "(string \<Rightarrow> string) \<Rightarrow> (string \<Rightarrow> string) \<Rightarrow> string list list \<Rightarrow> error + table \<times> table" where
  "read_nicknames_file lower strip rows =
     (case nicknames_rows lower strip rows ([], []) of
        Inl e \<Rightarrow> Inl e
      | Inr (nicknames_to_official, official_to_short_name) \<Rightarrow>
          Inr (dict_set nicknames_to_official ''green party'' ''Green Party'',
               official_to_short_name))"

section \<open>names.py\<close>

text \<open>
  The values a nickname argument or a cell of a data line can be: \<open>None\<close>, a float
  \<open>NaN\<close> such as pandas puts for an empty cell, a string, or an integer. \<open>pd.isna\<close>
  holds of the first two. A \<open>NaN\<close> is equal to no float, itself included, and Python
  tells two of them apart by the object only: \<open>NaN i\<close> is the object number \<open>i\<close>.
\<close>

datatype pyval = PyNone | NaN nat | Str string | Num int

fun isna :: "pyval \<Rightarrow> bool" where
  "isna PyNone = True"
| "isna (NaN i) = True"
| "isna (Str s) = False"
| "isna (Num n) = False"

text \<open>
  What a call does besides returning: a run of the fuzzy search, a warning of the
  module's logger (\<open>Renaming '%s' -> '%s'\<close> with its two arguments), a warning of
  class \<open>UKPoliticsWarning\<close> issued through \<open>warnings.warn\<close>.
\<close>

datatype event =
    FuzzySearch string
  | LoggerWarning string string
  | UKPoliticsWarning string

text \<open>
  \<open>fuzzywuzzy.process.extractOne\<close> is a library outside the sources: a parameter
  \<open>extractOne\<close>, which for a query and a list of choices returns the best choice with
  its score, or \<open>None\<close>. Subscripting \<open>None\<close> raises \<open>TypeError\<close>, and a choice that is
  not a key of the table raises \<open>KeyError\<close>.

  \<open>official_wrapped\<close> is the body of \<open>official\<close>, the function that the decorator
  \<open>functools.lru_cache\<close> wraps. A nickname that is neither missing nor a string has no
  method \<open>lower\<close>: \<open>AttributeError\<close>.
\<close>

type_synonym extract_one = "string \<Rightarrow> string list \<Rightarrow> (string \<times> nat) option"

definition official_wrapped ::
  "(string \<Rightarrow> string) \<Rightarrow> (string \<Rightarrow> string) \<Rightarrow> table \<Rightarrow> extract_one \<Rightarrow>
   pyval \<Rightarrow> bool \<Rightarrow> bool \<Rightarrow> bool \<Rightarrow> (error + string option) \<times> event list" where
  "official_wrapped lower strip PARTY_NICKNAMES extractOne nickname allow_fuzzy_match
       warn_on_fuzzy_match exception_on_null_value =
     (if isna nickname then
        (if exception_on_null_value then (Inl PartyNicknameEmpty, [])
         else (Inr None, []))
      else
        (case nickname of
           Str s \<Rightarrow>
             (let nickname = strip (lower s) in
              if length nickname = 0 then (Inl PartyNicknameEmpty, [])
              else
                (case map_of PARTY_NICKNAMES nickname of
                   Some name \<Rightarrow> (Inr (Some name), [])
                 | None \<Rightarrow>
                     if allow_fuzzy_match then
                       (case extractOne nickname (map fst PARTY_NICKNAMES) of
                          None \<Rightarrow> (Inl TypeError, [FuzzySearch nickname])
                        | Some (fuzzy_matched, score) \<Rightarrow>
                            (case map_of PARTY_NICKNAMES fuzzy_matched of
                               None \<Rightarrow> (Inl KeyError, [FuzzySearch nickname])
                             | Some proper_name \<Rightarrow>
                                 (Inr (Some proper_name),
                                  FuzzySearch nickname #
                                  (if warn_on_fuzzy_match
                                   then [LoggerWarning nickname proper_name]
                                   else []))))
                     else (Inl (PartyNameNotFound nickname), [])))
         | _ \<Rightarrow> (Inl AttributeError, [])))"

text \<open>
  The form of a call of \<open>official\<close>: the arguments passed by position, the nickname
  first and then up to three flags, and the arguments passed by keyword, in the order
  of the call. The nickname is a value that is not a flag and every flag is a \<open>bool\<close>,
  as the signature declares. A keyword that is no parameter of \<open>official\<close> is
  \<open>Unexpected\<close>.
\<close>

datatype positional = NoArgs | Args pyval "bool list"

datatype keyword =
    Nickname pyval
  | Allow_fuzzy_match bool
  | Warn_on_fuzzy_match bool
  | Exception_on_null_value bool
  | Unexpected string

type_synonym official_call = "positional \<times> keyword list"

text \<open>
  How Python binds a call to the parameters
  \<open>(nickname, allow_fuzzy_match=True, warn_on_fuzzy_match=True, exception_on_null_value=False)\<close>:
  \<open>TypeError\<close> for more than four positional arguments, for an unexpected keyword, for
  a parameter given twice, and for a call without a nickname.
\<close>

fun positional_values :: "positional \<Rightarrow> pyval list \<times> bool list" where
  "positional_values NoArgs = ([], [])"
| "positional_values (Args nickname flags) = ([nickname], flags)"

fun keyword_nickname :: "keyword list \<Rightarrow> pyval list" where
  "keyword_nickname [] = []"
| "keyword_nickname (Nickname v # kws) = v # keyword_nickname kws"
| "keyword_nickname (kw # kws) = keyword_nickname kws"

fun keyword_allow :: "keyword list \<Rightarrow> bool list" where
  "keyword_allow [] = []"
| "keyword_allow (Allow_fuzzy_match b # kws) = b # keyword_allow kws"
| "keyword_allow (kw # kws) = keyword_allow kws"

fun keyword_warn :: "keyword list \<Rightarrow> bool list" where
  "keyword_warn [] = []"
| "keyword_warn (Warn_on_fuzzy_match b # kws) = b # keyword_warn kws"
| "keyword_warn (kw # kws) = keyword_warn kws"

fun keyword_exception :: "keyword list \<Rightarrow> bool list" where
  "keyword_exception [] = []"
| "keyword_exception (Exception_on_null_value b # kws) = b # keyword_exception kws"
| "keyword_exception (kw # kws) = keyword_exception kws"

fun is_unexpected :: "keyword \<Rightarrow> bool" where
  "is_unexpected (Unexpected name) = True"
| "is_unexpected kw = False"

text \<open>
  \<open>bind_flag\<close>: the value of a flag from its positional values (at most one), its
  keyword values and its default.
\<close>

fun bind_flag :: "bool list \<Rightarrow> bool list \<Rightarrow> bool \<Rightarrow> error + bool" where
  "bind_flag [] [] by_default = Inr by_default"
| "bind_flag [b] [] by_default = Inr b"
| "bind_flag [] [b] by_default = Inr b"
| "bind_flag by_position by_keyword by_default = Inl TypeError"

definition bind_official :: "official_call \<Rightarrow> error + pyval \<times> bool \<times> bool \<times> bool" where
  "bind_official call =
     (case call of
        (args, kws) \<Rightarrow>
          (case positional_values args of
             (nick, flags) \<Rightarrow>
               if length flags > 3 \<or> list_ex is_unexpected kws then Inl TypeError
               else
                 (case nick @ keyword_nickname kws of
                    [nickname] \<Rightarrow>
                      (case bind_flag (take 1 flags) (keyword_allow kws) True of
                         Inl e \<Rightarrow> Inl e
                       | Inr allow_fuzzy_match \<Rightarrow>
                           (case bind_flag (take 1 (drop 1 flags)) (keyword_warn kws) True of
                              Inl e \<Rightarrow> Inl e
                            | Inr warn_on_fuzzy_match \<Rightarrow>
                                (case bind_flag (take 1 (drop 2 flags))
                                        (keyword_exception kws) False of
                                   Inl e \<Rightarrow> Inl e
                                 | Inr exception_on_null_value \<Rightarrow>
                                     Inr (nickname, allow_fuzzy_match, warn_on_fuzzy_match,
                                          exception_on_null_value))))
                  | _ \<Rightarrow> Inl TypeError)))"

text \<open>
  \<open>functools.lru_cache\<close>, applied without arguments, keeps at most 128 results, the
  least recently used first in the list. Its key is the call as it is written, the
  positional arguments and the keyword arguments in their order, not the parameters
  they are bound to. A call whose key is cached returns the cached value, runs
  nothing, and becomes the most recent. Any other call runs the function; an
  exception goes to the caller and is not cached; a result is cached, and put in the
  place of the least recently used one when the cache is full.
\<close>

definition maxsize :: nat where
  "maxsize = 128"

definition lru_cache ::
  "('k \<Rightarrow> (error + 'v) \<times> event list) \<Rightarrow> ('k \<times> 'v) list \<Rightarrow> 'k \<Rightarrow>
   ((error + 'v) \<times> event list) \<times> ('k \<times> 'v) list" where
  "lru_cache user_function cache key =
     (case map_of cache key of
        Some result \<Rightarrow>
          ((Inr result, []), filter (\<lambda>entry. fst entry \<noteq> key) cache @ [(key, result)])
      | None \<Rightarrow>
          (case user_function key of
             (Inl e, events) \<Rightarrow> ((Inl e, events), cache)
           | (Inr result, events) \<Rightarrow>
               ((Inr result, events),
                (if length cache \<ge> maxsize then tl cache else cache) @ [(key, result)])))"

type_synonym official_cache = "(official_call \<times> string option) list"

text \<open>\<open>official_function\<close>: binding the call, then the body.\<close>

definition official_function ::
  "(string \<Rightarrow> string) \<Rightarrow> (string \<Rightarrow> string) \<Rightarrow> table \<Rightarrow> extract_one \<Rightarrow> official_call \<Rightarrow>
   (error + string option) \<times> event list" where
  "official_function lower strip PARTY_NICKNAMES extractOne call =
     (case bind_official call of
        Inl e \<Rightarrow> (Inl e, [])
      | Inr (nickname, allow_fuzzy_match, warn_on_fuzzy_match, exception_on_null_value) \<Rightarrow>
          official_wrapped lower strip PARTY_NICKNAMES extractOne nickname allow_fuzzy_match
            warn_on_fuzzy_match exception_on_null_value)"

definition official ::
  "(string \<Rightarrow> string) \<Rightarrow> (string \<Rightarrow> string) \<Rightarrow> table \<Rightarrow> extract_one \<Rightarrow> official_cache \<Rightarrow>
   official_call \<Rightarrow> ((error + string option) \<times> event list) \<times> official_cache" where
  "official lower strip PARTY_NICKNAMES extractOne cache call =
     lru_cache (official_function lower strip PARTY_NICKNAMES extractOne) cache call"

text \<open>
  A run of calls of \<open>official\<close>, one after the other on the same cache: what each call
  returned or raised, with its events, and the cache at the end.
\<close>

fun official_calls ::
  "(string \<Rightarrow> string) \<Rightarrow> (string \<Rightarrow> string) \<Rightarrow> table \<Rightarrow> extract_one \<Rightarrow> official_cache \<Rightarrow>
   official_call list \<Rightarrow> ((error + string option) \<times> event list) list \<times> official_cache" where
  "official_calls lower strip PARTY_NICKNAMES extractOne cache [] = ([], cache)"
| "official_calls lower strip PARTY_NICKNAMES extractOne cache (call # calls) =
     (case official lower strip PARTY_NICKNAMES extractOne cache call of
        (outcome, cache') \<Rightarrow>
          (case official_calls lower strip PARTY_NICKNAMES extractOne cache' calls of
             (outcomes, cache'') \<Rightarrow> (outcome # outcomes, cache'')))"

definition short :: "(string \<Rightarrow> string) \<Rightarrow> table \<Rightarrow> string option \<Rightarrow> error + string option" where
  "short lower PARTY_SHORTNAMES official_name =
     (case official_name of
        None \<Rightarrow> Inr None
      | Some name \<Rightarrow>
          (case map_of PARTY_SHORTNAMES (lower name) of
             Some s \<Rightarrow> Inr (Some s)
           | None \<Rightarrow> Inl (PartyNameNotFound (lower name))))"

text \<open>
  A cache is consistent with the function it caches when every value it holds is what
  the function returns for its key. The empty cache is, and \<open>lru_cache\<close> keeps it so.
\<close>

definition cache_consistent ::
  "('k \<Rightarrow> (error + 'v) \<times> event list) \<Rightarrow> ('k \<times> 'v) list \<Rightarrow> bool" where
  "cache_consistent user_function cache =
     list_all (\<lambda>entry. fst (user_function (fst entry)) = Inr (snd entry)) cache"

section \<open>colors.py\<close>

definition green_party_warning :: string where
  "green_party_warning =
     ''The Green Party has split into different chapters''
     @ '' in each country, each with different colors.''
     @ '' The historic color (from when it was one party)''
     @ '' has been returned.''"

definition by_official_party_name ::
  "table \<Rightarrow> string option \<Rightarrow> (error + string option) \<times> event list" where
  "by_official_party_name PARTY_COLORS party_name =
     (case party_name of
        None \<Rightarrow> (Inr None, [])
      | Some name \<Rightarrow>
          (case map_of PARTY_COLORS name of
             Some color \<Rightarrow>
               (Inr (Some color),
                if name = ''Green Party'' then [UKPoliticsWarning green_party_warning] else [])
           | None \<Rightarrow> (Inl (NoColorForThisParty name), [])))"

section \<open>elections.py\<close>

text \<open>A \<open>datetime.date\<close>: year, month, day.\<close>

type_synonym date = "nat \<times> nat \<times> nat"

record VoteTotal =
  location :: Location
  date :: date
  party :: string
  party_contemporary_styling :: string
  votes :: int

text \<open>
  The relabelling at the head of \<open>_vote_line_to_object\<close>; \<open>label\<close> is the variable
  \<open>party_contemporary_styling\<close> of the source, a cell of the line: a comparison with a
  string is false for a cell that is not a string.
\<close>

definition relabel :: "pyval \<Rightarrow> string option \<Rightarrow> pyval" where
  "relabel label count_location_country =
     (if label = Str ''PC/SNP'' then
        (if count_location_country = Some ''Scotland'' then Str ''SNP''
         else if count_location_country = Some ''Wales'' then Str ''PC''
         else label)
      else if label = Str ''Green'' then
        (if count_location_country = Some ''Scotland'' then Str ''Scottish Green Party''
         else if count_location_country = Some ''Northern Ireland''
           then Str ''Green Party Northern Ireland''
         else Str ''Green Party of England and Wales'')
      else label)"

text \<open>
  \<open>"\t".join(line)\<close> raises \<open>TypeError\<close> when an item of the line is not a string, and
  \<open>int(x)\<close> of a cell is the cell when it is an integer, \<open>py_int\<close> of a string,
  \<open>ValueError\<close> for \<open>NaN\<close> and \<open>TypeError\<close> for \<open>None\<close>.
\<close>

fun str_of_cell :: "pyval \<Rightarrow> string option" where
  "str_of_cell (Str s) = Some s"
| "str_of_cell other = None"

definition tab_join :: "pyval list \<Rightarrow> error + string" where
  "tab_join line =
     (case those (map str_of_cell line) of
        None \<Rightarrow> Inl TypeError
      | Some cells \<Rightarrow> Inr (str_join (CHR 0x09) cells))"

definition int_of_cell :: "(string \<Rightarrow> error + int) \<Rightarrow> pyval \<Rightarrow> error + int" where
  "int_of_cell int_unicode x =
     (case x of
        Str s \<Rightarrow> py_int int_unicode s
      | Num n \<Rightarrow> Inr n
      | NaN i \<Rightarrow> Inl ValueError
      | PyNone \<Rightarrow> Inl TypeError)"

text \<open>
  \<open>_vote_line_to_object\<close>, in the order in which Python evaluates it. The parser of
  dates, \<open>datetime.datetime.strptime\<close> with the format \<open>%Y-%m-%d\<close>, is a parameter. The
  call of \<open>names.official\<close> goes through its cache, in the form
  \<open>official(party_contemporary_styling, warn_on_fuzzy_match=True)\<close>. The arguments of
  the exception are evaluated before the exception is raised. A first cell that is
  not a string has no method \<open>split\<close>: \<open>AttributeError\<close>.
\<close>

definition vote_line_to_object ::
  "(string \<Rightarrow> string) \<Rightarrow> (string \<Rightarrow> string) \<Rightarrow> (string \<Rightarrow> error + int) \<Rightarrow> table \<Rightarrow>
   extract_one \<Rightarrow> (string \<Rightarrow> error + date) \<Rightarrow> official_cache \<Rightarrow> pyval list \<Rightarrow>
   ((error + VoteTotal) \<times> event list) \<times> official_cache" where
  "vote_line_to_object lower strip int_unicode PARTY_NICKNAMES extractOne strptime cache line =
     (if length line = 0 then ((Inl IndexError, []), cache)
      else
        (case (case line ! 0 of
                Str raw \<Rightarrow> from_raw_string int_unicode raw
              | _ \<Rightarrow> Inl AttributeError) of
           Inl e \<Rightarrow> ((Inl e, []), cache)
         | Inr count_location \<Rightarrow>
             if length line \<le> 2 then ((Inl IndexError, []), cache)
             else
               (let label = relabel (line ! 2) (country count_location)
                in
                  (case official lower strip PARTY_NICKNAMES extractOne cache
                          (Args label [], [Warn_on_fuzzy_match True]) of
                     ((Inl e, events), cache') \<Rightarrow> ((Inl e, events), cache')
                   | ((Inr None, events), cache') \<Rightarrow>
                       (case tab_join line of
                          Inl e \<Rightarrow> ((Inl e, events), cache')
                        | Inr text \<Rightarrow>
                            ((Inl (DataLineUnreadable text ''party name could not be read''),
                              events), cache'))
                   | ((Inr (Some party_official_name), events), cache') \<Rightarrow>
                       (case (case line ! 1 of Str s \<Rightarrow> strptime s | _ \<Rightarrow> Inl TypeError) of
                          Inl e \<Rightarrow> ((Inl e, events), cache')
                        | Inr d \<Rightarrow>
                            if length line \<le> 3 then ((Inl IndexError, events), cache')
                            else
                              (case int_of_cell int_unicode (line ! 3) of
                                 Inl e \<Rightarrow> ((Inl e, events), cache')
                               | Inr v \<Rightarrow>
                                   (case label of
                                      Str styling \<Rightarrow>
                                        ((Inr \<lparr>location = count_location, date = d,
                                                 party = party_official_name,
                                                 party_contemporary_styling = styling,
                                                 votes = v\<rparr>, events), cache')
                                    | _ \<Rightarrow> ((Inl AttributeError, events), cache'))))))))"

text \<open>
  \<open>seats\<close>. \<open>COUNTS\<close>, the list of every vote count of the data, is a parameter. The
  comprehension \<open>counts_for_this_date\<close> tests the filter first and the date second.
\<close>

fun counts_for_this_date ::
  "(string \<Rightarrow> string) \<Rightarrow> VoteTotal list \<Rightarrow> Location \<Rightarrow> date \<Rightarrow> error + VoteTotal list" where
  "counts_for_this_date lower [] location_filter d = Inr []"
| "counts_for_this_date lower (count # COUNTS) location_filter d =
     (case ge_Location lower location_filter (location count) of
        Inl e \<Rightarrow> Inl e
      | Inr matched \<Rightarrow>
          (case counts_for_this_date lower COUNTS location_filter d of
             Inl e \<Rightarrow> Inl e
           | Inr rest \<Rightarrow> Inr (if matched \<and> date count = d then count # rest else rest)))"

text \<open>
  The set \<open>locations\<close>: a Python set keeps the first of the elements that are equal
  under \<open>__eq__\<close> (equal elements have equal hashes). Iteration over a set has no
  specified order; the model iterates in the order of insertion, and no theorem below
  says anything of the order.
\<close>

definition set_add :: "Location list \<Rightarrow> Location \<Rightarrow> Location list" where
  "set_add s loc = (if list_ex (\<lambda>m. eq_Location m (LocationObj loc)) s then s else s @ [loc])"

definition locations :: "VoteTotal list \<Rightarrow> Location list" where
  "locations counts = foldl set_add [] (map location counts)"

text \<open>
  The dictionary \<open>party_counts\<close> of one location: a later count of a party replaces an
  earlier one.
\<close>

definition party_counts :: "VoteTotal list \<Rightarrow> Location \<Rightarrow> (string \<times> int) list" where
  "party_counts counts loc =
     foldl (\<lambda>d count.
              if eq_Location (location count) (LocationObj loc)
              then dict_set d (party count) (votes count) else d)
       [] counts"

text \<open>
  \<open>max(party_counts.keys(), key=...)\<close> with the stored count as the key: the first key
  whose count no other exceeds; \<open>ValueError\<close> on an empty dictionary.
\<close>

fun max_key :: "(string \<times> int) list \<Rightarrow> error + string" where
  "max_key [] = Inl ValueError"
| "max_key (entry # entries) =
     Inr (fst (foldl (\<lambda>best e. if snd e > snd best then e else best) entry entries))"

text \<open>
  The loop over \<open>locations\<close> that fills \<open>constituency_winners\<close>. The locations are
  pairwise unequal, so every assignment adds a key, and the items of the dictionary
  are the pairs in the order of the loop.
\<close>

fun constituency_winners ::
  "VoteTotal list \<Rightarrow> Location list \<Rightarrow> error + (Location \<times> string) list" where
  "constituency_winners counts [] = Inr []"
| "constituency_winners counts (loc # locs) =
     (case max_key (party_counts counts loc) of
        Inl e \<Rightarrow> Inl e
      | Inr winner \<Rightarrow>
          (case constituency_winners counts locs of
             Inl e \<Rightarrow> Inl e
           | Inr rest \<Rightarrow> Inr ((loc, winner) # rest)))"

definition seats ::
  "(string \<Rightarrow> string) \<Rightarrow> VoteTotal list \<Rightarrow> date \<Rightarrow> Location option \<Rightarrow>
   error + (Location \<times> string) list" where
  "seats lower COUNTS d location_filter =
     (let location_filter =
            (case location_filter of
               None \<Rightarrow> Location_init None None None None None None
             | Some f \<Rightarrow> f)
      in
        (case counts_for_this_date lower COUNTS location_filter d of
           Inl e \<Rightarrow> Inl e
         | Inr counts \<Rightarrow> constituency_winners counts (locations counts)))"

text \<open>
  Vocabulary for the statements about \<open>seats\<close>. \<open>selected lower COUNTS F D\<close>: the
  records of date \<open>D\<close> whose location the filter \<open>F\<close> matches. \<open>on_date_at COUNTS D loc\<close>:
  the records of date \<open>D\<close> whose location is equal to \<open>loc\<close>.
  \<open>one_count_per_party COUNTS\<close>: the data hold one vote count for each combination of
  party, location and date, as the docstring of the module says; what matters of it
  is that no two records of one party, location and date differ in their count.
\<close>

definition selected ::
  "(string \<Rightarrow> string) \<Rightarrow> VoteTotal list \<Rightarrow> Location \<Rightarrow> date \<Rightarrow> VoteTotal list" where
  "selected lower COUNTS F D =
     filter (\<lambda>c. ge_Location lower F (location c) = Inr True \<and> date c = D) COUNTS"



section \<open>Examples for the statements\<close>

text \<open>
  The examples are strings of ASCII characters. On such a string \<open>str.lower\<close> turns the
  letters \<open>A\<close> to \<open>Z\<close> into \<open>a\<close> to \<open>z\<close> and keeps the rest, and \<open>str.strip\<close> drops the
  blanks at both ends (tab, line feed, vertical tab, form feed, carriage return, the
  four separators \<open>0x1C\<close> to \<open>0x1F\<close>, space): \<open>lower_ascii\<close> and \<open>strip_ascii\<close>. They
  stand for \<open>lower\<close> and \<open>strip\<close> in the examples only.
\<close>

definition lower_char_ascii :: "char \<Rightarrow> char" where
  "lower_char_ascii c =
     (case map_of (zip ''ABCDEFGHIJKLMNOPQRSTUVWXYZ'' ''abcdefghijklmnopqrstuvwxyz'') c of
        None \<Rightarrow> c
      | Some l \<Rightarrow> l)"

definition lower_ascii :: "string \<Rightarrow> string" where
  "lower_ascii s = map lower_char_ascii s"

definition isspace_ascii :: "char \<Rightarrow> bool" where
  "isspace_ascii c =
     (c \<in> set [CHR 0x09, CHR 0x0A, CHR 0x0B, CHR 0x0C, CHR 0x0D,
                CHR 0x1C, CHR 0x1D, CHR 0x1E, CHR 0x1F, CHR '' ''])"

definition strip_ascii :: "string \<Rightarrow> string" where
  "strip_ascii s = rev (dropWhile isspace_ascii (rev (dropWhile isspace_ascii s)))"

text \<open>
  \<open>int\<close> is never called on a string outside ASCII in the examples; \<open>int_ascii_only\<close>
  stands for \<open>int_unicode\<close> there.
\<close>

definition int_ascii_only :: "string \<Rightarrow> error + int" where
  "int_ascii_only s = Inl ValueError"

text \<open>
  A stand-in for the fuzzy matcher, which takes the first choice, and two small tables
  of the kind the data files hold. They serve in the examples only; every theorem is
  about any matcher and any tables.
\<close>

definition first_choice :: extract_one where
  "first_choice query choices = (case choices of [] \<Rightarrow> None | c # _ \<Rightarrow> Some (c, 0))"

definition example_nicknames :: table where
  "example_nicknames =
     [(''conservative party'', ''Conservative and Unionist Party''),
      (''conservative and unionist party'', ''Conservative and Unionist Party''),
      (''tory'', ''Conservative and Unionist Party''),
      (''green party'', ''Green Party'')]"

definition example_colors :: table where
  "example_colors = [(''Green Party'', ''#6AB023''), (''Labour Party'', ''#E4003B'')]"

text \<open>
  Vote counts of the kind the data hold: two constituencies on one date, and one of
  them on an earlier date.
\<close>

definition aberavon :: Location where
  "aberavon = Location_init None (Some ''ABERAVON'') (Some ''West Glamorgan'')
     (Some ''Wales'') (Some ''Wales'') (Some 50750)"

definition dundee_east :: Location where
  "dundee_east = Location_init None (Some ''DUNDEE EAST'') None
     (Some ''Scotland'') (Some ''Scotland'') (Some 66210)"

definition example_counts :: "VoteTotal list" where
  "example_counts =
     [\<lparr>location = aberavon, date = (2019, 12, 12), party = ''Labour Party'',
        party_contemporary_styling = ''Lab'', votes = 17008\<rparr>,
      \<lparr>location = aberavon, date = (2019, 12, 12),
        party = ''Conservative and Unionist Party'',
        party_contemporary_styling = ''Con'', votes = 6518\<rparr>,
      \<lparr>location = dundee_east, date = (2019, 12, 12), party = ''Scottish National Party'',
        party_contemporary_styling = ''SNP'', votes = 24361\<rparr>,
      \<lparr>location = dundee_east, date = (2019, 12, 12),
        party = ''Conservative and Unionist Party'',
        party_contemporary_styling = ''Con'', votes = 10986\<rparr>,
      \<lparr>location = aberavon, date = (2017, 6, 8),
        party = ''Conservative and Unionist Party'',
        party_contemporary_styling = ''Con'', votes = 20000\<rparr>]"

text \<open>
  Calls of \<open>official\<close> for the examples: \<open>official("tories")\<close>, and as many calls as the
  cache has places, \<open>official("party 0")\<close> to \<open>official("party 127")\<close>.
\<close>

definition call_tories :: official_call where
  "call_tories = (Args (Str ''tories'') [], [])"

definition other_calls :: "official_call list" where
  "other_calls = map (\<lambda>n. (Args (Str (''party '' @ str_nat n)) [], [])) [0..<128]"

section \<open>Strings and integers: splitting, joining, printing and parsing\<close>

lemma str_split_nonempty: "str_split sep s \<noteq> []"
  by (induction s) (auto split: list.splits)

lemma str_split_no_sep: "sep \<notin> set x \<Longrightarrow> str_split sep x = [x]"
  by (induction x) auto

lemma str_split_append:
  "sep \<notin> set x \<Longrightarrow> str_split sep (x @ sep # rest) = x # str_split sep rest"
  by (induction x) (auto split: list.splits)

lemma str_split_join:
  "xs \<noteq> [] \<Longrightarrow> \<forall>x\<in>set xs. sep \<notin> set x \<Longrightarrow>
   str_split sep (str_join sep xs) = xs"
proof (induction sep xs rule: str_join.induct)
  case (1 sep)
  then show ?case by simp
next
  case (2 sep x)
  then show ?case by (simp add: str_split_no_sep)
next
  case (3 sep x y ys)
  then show ?case by (simp add: str_split_append)
qed

lemma digit_char_in: "n < 10 \<Longrightarrow> ''0123456789'' ! n \<in> set ''0123456789''"
  by (rule nth_mem) simp

lemma set_str_nat: "set (str_nat n) \<subseteq> set ''0123456789''"
proof (induction n rule: str_nat.induct)
  case (1 n)
  show ?case
  proof (cases "n < 10")
    case True
    then show ?thesis using digit_char_in [of n] by (subst str_nat.simps) simp
  next
    case False
    have "n mod 10 < 10" by simp
    then have "''0123456789'' ! (n mod 10) \<in> set ''0123456789''" by (rule digit_char_in)
    with 1 False show ?thesis by (subst str_nat.simps) simp
  qed
qed

lemma str_nat_nonempty: "str_nat n \<noteq> []"
  by (subst str_nat.simps) simp

lemma digit_val_digit_char: "n < 10 \<Longrightarrow> digit_val (''0123456789'' ! n) = Some n"
proof -
  assume "n < 10"
  then have "n \<in> {0, 1, 2, 3, 4, 5, 6, 7, 8, 9}" by auto
  then show ?thesis by (auto simp: digit_val_def)
qed

lemma digit_val_some_not_underscore: "c \<in> set ''0123456789'' \<Longrightarrow> c \<noteq> CHR ''_''"
  by auto

lemma digit_val_in: "c \<in> set ''0123456789'' \<Longrightarrow> \<exists>v. digit_val c = Some v"
  by (auto simp: digit_val_def)

lemma digits_value_snoc:
  "set s \<subseteq> set ''0123456789'' \<Longrightarrow> d < 10 \<Longrightarrow>
   digits_value acc (s @ [''0123456789'' ! d]) =
     map_option (\<lambda>a. 10 * a + d) (digits_value acc s)"
proof (induction acc s rule: digits_value.induct)
  case (1 acc)
  then show ?case by (simp add: digit_val_digit_char)
next
  case (2 acc c)
  then have c: "c \<in> set ''0123456789''" by simp
  then obtain v where v: "digit_val c = Some v" using digit_val_in by blast
  from c have "c \<noteq> CHR ''_''" by (rule digit_val_some_not_underscore)
  with v 2 show ?case by (simp add: digit_val_digit_char)
next
  case (3 acc c e es)
  then have c: "c \<in> set ''0123456789''" by simp
  then obtain v where v: "digit_val c = Some v" using digit_val_in by blast
  from c have nu: "c \<noteq> CHR ''_''" by (rule digit_val_some_not_underscore)
  from 3 have rest: "set (e # es) \<subseteq> set ''0123456789''" by simp
  from "3.IH"(2) [OF nu v rest "3.prems"(2)] nu v show ?case by simp
qed

lemma nat_of_digits_str_nat: "nat_of_digits (str_nat n) = Some n"
proof (induction n rule: str_nat.induct)
  case (1 n)
  show ?case
  proof (cases "n < 10")
    case True
    then show ?thesis
      by (subst str_nat.simps) (simp add: nat_of_digits_def digit_val_digit_char)
  next
    case False
    obtain c cs where ccs: "str_nat (n div 10) = c # cs"
      using str_nat_nonempty [of "n div 10"] by (cases "str_nat (n div 10)") auto
    have sub: "set (c # cs) \<subseteq> set ''0123456789''"
      using set_str_nat [of "n div 10"] ccs by simp
    then have c: "c \<in> set ''0123456789''" and cs: "set cs \<subseteq> set ''0123456789''" by auto
    obtain v where v: "digit_val c = Some v" using c digit_val_in by blast
    from 1 False ccs v have ih: "digits_value v cs = Some (n div 10)"
      by (simp add: nat_of_digits_def)
    have "n mod 10 < 10" by simp
    from digits_value_snoc [OF cs this, of v] ih
    have "digits_value v (cs @ [''0123456789'' ! (n mod 10)]) = Some n" by simp
    with False ccs v show ?thesis
      by (subst str_nat.simps) (simp add: nat_of_digits_def)
  qed
qed

lemma dropWhile_none: "\<forall>c\<in>set t. \<not> P c \<Longrightarrow> dropWhile P t = t"
  by (cases t) auto

lemma int_strip_no_space: "\<forall>c\<in>set s. \<not> int_isspace c \<Longrightarrow> int_strip s = s"
proof -
  assume a: "\<forall>c\<in>set s. \<not> int_isspace c"
  then have 1: "dropWhile int_isspace s = s" by (rule dropWhile_none)
  from a have "\<forall>c\<in>set (rev s). \<not> int_isspace c" by simp
  then have 2: "dropWhile int_isspace (rev s) = rev s" by (rule dropWhile_none)
  from 1 2 show ?thesis by (simp add: int_strip_def)
qed

lemma digit_not_space: "c \<in> set ''0123456789'' \<Longrightarrow> \<not> int_isspace c"
  by (auto simp: int_isspace_def)

lemma str_nat_no_space: "\<forall>c\<in>set (str_nat n). \<not> int_isspace c"
  using set_str_nat [of n] digit_not_space by blast

lemma digit_ascii: "c \<in> set ''0123456789'' \<Longrightarrow> \<not> digit7 c"
  by auto

lemma str_nat_ascii: "is_ascii (str_nat n)"
  using set_str_nat [of n] digit_ascii by (auto simp: is_ascii_def list_all_iff)

lemma str_int_ascii: "is_ascii (str_int i)"
  using str_nat_ascii [of "nat (- i)"] str_nat_ascii [of "nat i"]
  by (simp add: str_int_def is_ascii_def)

lemma str_nat_hd_digit: "\<exists>c cs. str_nat n = c # cs \<and> c \<in> set ''0123456789''"
  using str_nat_nonempty [of n] set_str_nat [of n] by (cases "str_nat n") auto

lemma py_int_str_int: "py_int int_unicode (str_int i) = Inr i"
proof (cases "i < 0")
  case True
  have ns: "\<forall>c\<in>set (CHR ''-'' # str_nat (nat (- i))). \<not> int_isspace c"
    using str_nat_no_space by (simp add: int_isspace_def)
  have "is_ascii (CHR ''-'' # str_nat (nat (- i)))"
    using str_int_ascii [of i] True by (simp add: str_int_def)
  with True show ?thesis
    by (simp add: py_int_def str_int_def int_strip_no_space [OF ns] nat_of_digits_str_nat)
next
  case False
  obtain c cs where ccs: "str_nat (nat i) = c # cs" and c: "c \<in> set ''0123456789''"
    using str_nat_hd_digit by blast
  from c have sign: "c \<noteq> CHR ''-''" "c \<noteq> CHR ''+''" by auto
  have "nat_of_digits (c # cs) = Some (nat i)"
    using nat_of_digits_str_nat [of "nat i"] ccs by simp
  with False ccs sign show ?thesis
    using int_strip_no_space [OF str_nat_no_space, of "nat i"] str_nat_ascii [of "nat i"]
    by (simp add: py_int_def str_int_def)
qed

lemma str_int_inj: "str_int i = str_int j \<Longrightarrow> i = j"
proof -
  assume "str_int i = str_int j"
  then have "py_int (\<lambda>s. Inl ValueError) (str_int i) = py_int (\<lambda>s. Inl ValueError) (str_int j)"
    by simp
  then show "i = j" by (simp add: py_int_str_int)
qed

section \<open>Properties of location.py\<close>

lemma str_int_no_bar: "CHR ''|'' \<notin> set (str_int i)"
  using set_str_nat [of "nat (- i)"] set_str_nat [of "nat i"]
  by (auto simp: str_int_def)

lemma str_int_not_star: "str_int i \<noteq> ''*''"
proof
  assume a: "str_int i = ''*''"
  have "CHR ''*'' \<notin> set (str_int i)"
    using set_str_nat [of "nat (- i)"] set_str_nat [of "nat i"]
    by (auto simp: str_int_def)
  with a show False by simp
qed

lemma wildcard_no_bar:
  "(case f of None \<Rightarrow> True | Some s \<Rightarrow> CHR ''|'' \<notin> set s) \<Longrightarrow>
   CHR ''|'' \<notin> set (wildcard_if_none (\<lambda>s. s) f)"
  by (cases f) (auto simp: wildcard_if_none_def)

lemma wildcard_int_no_bar: "CHR ''|'' \<notin> set (wildcard_if_none str_int e)"
  by (cases e) (auto simp: wildcard_if_none_def str_int_no_bar)

lemma repr_pieces_bar_free:
  "bar_free L \<Longrightarrow> \<forall>x\<in>set (repr_pieces L). CHR ''|'' \<notin> set x"
  by (auto simp: bar_free_def repr_pieces_def string_properties_list_def
      wildcard_int_no_bar wildcard_no_bar)

lemma split_repr:
  "bar_free L \<Longrightarrow> str_split CHR ''|'' (repr_Location L) = repr_pieces L"
proof -
  assume bf: "bar_free L"
  have ne: "repr_pieces L \<noteq> []" by (simp add: repr_pieces_def)
  have "repr_Location L = str_join CHR ''|'' (repr_pieces L)"
    by (simp add: repr_Location_def repr_pieces_def)
  with str_split_join [OF ne repr_pieces_bar_free [OF bf]] show ?thesis by simp
qed

lemma wildcard_round:
  "wildcard_if_none (\<lambda>s. s) (wildcard_to_nonetype (wildcard_if_none (\<lambda>s. s) f))
     = wildcard_if_none (\<lambda>s. s) f"
  by (cases f) (auto simp: wildcard_if_none_def wildcard_to_nonetype_def)

lemma from_raw_string_repr:
  assumes "bar_free L"
  shows "from_raw_string int_unicode (repr_Location L) =
     Inr (Location_init
            (wildcard_to_nonetype (wildcard_if_none (\<lambda>s. s) (ons_id L)))
            (wildcard_to_nonetype (wildcard_if_none (\<lambda>s. s) (constituency L)))
            (wildcard_to_nonetype (wildcard_if_none (\<lambda>s. s) (county L)))
            (wildcard_to_nonetype (wildcard_if_none (\<lambda>s. s) (region L)))
            (wildcard_to_nonetype (wildcard_if_none (\<lambda>s. s) (country L)))
            (electorate L))"
proof (cases "electorate L")
  case None
  then show ?thesis
    unfolding from_raw_string_def split_repr [OF assms]
    by (simp add: repr_pieces_def string_properties_list_def Let_def
        wildcard_if_none_def [of str_int] wildcard_to_nonetype_def [of "''*''"])
next
  case (Some n)
  then show ?thesis
    unfolding from_raw_string_def split_repr [OF assms]
    by (simp add: repr_pieces_def string_properties_list_def Let_def
        wildcard_if_none_def [of str_int] wildcard_to_nonetype_def [of "str_int n"]
        str_int_not_star py_int_str_int)
qed

lemma repr_eq_pieces:
  assumes "bar_free A" and "bar_free B"
  shows "(repr_Location A = repr_Location B) = (repr_pieces A = repr_pieces B)"
proof
  assume "repr_Location A = repr_Location B"
  then have "str_split CHR ''|'' (repr_Location A) = str_split CHR ''|'' (repr_Location B)"
    by simp
  then show "repr_pieces A = repr_pieces B"
    by (simp only: split_repr [OF assms(1)] split_repr [OF assms(2)])
next
  assume "repr_pieces A = repr_pieces B"
  then show "repr_Location A = repr_Location B"
    by (simp add: repr_Location_def repr_pieces_def)
qed

lemma wildcard_eq_unset:
  "(wildcard_if_none (\<lambda>s. s) a = wildcard_if_none (\<lambda>s. s) b)
     = (unset_if_wildcard a = unset_if_wildcard b)"
  by (cases a; cases b) (auto simp: wildcard_if_none_def unset_if_wildcard_def)

lemma wildcard_int_eq:
  "(wildcard_if_none str_int a = wildcard_if_none str_int b) = (a = b)"
proof (cases a; cases b)
  fix i j assume "a = Some i" "b = Some j"
  then show ?thesis using str_int_inj [of i j] by (auto simp: wildcard_if_none_def)
next
  fix i assume "a = Some i" "b = None"
  then show ?thesis using str_int_not_star [of i] by (auto simp: wildcard_if_none_def)
next
  fix j assume "a = None" "b = Some j"
  then show ?thesis using str_int_not_star [of j] by (auto simp: wildcard_if_none_def)
qed (simp add: wildcard_if_none_def)

lemma eq_Location_fields:
  assumes "bar_free A" and "bar_free B"
  shows "eq_Location A (LocationObj B) =
     (unset_if_wildcard (ons_id A) = unset_if_wildcard (ons_id B)
      \<and> unset_if_wildcard (constituency A) = unset_if_wildcard (constituency B)
      \<and> unset_if_wildcard (county A) = unset_if_wildcard (county B)
      \<and> unset_if_wildcard (region A) = unset_if_wildcard (region B)
      \<and> unset_if_wildcard (country A) = unset_if_wildcard (country B)
      \<and> electorate A = electorate B)"
  unfolding eq_Location_def repr_object.simps repr_eq_pieces [OF assms]
  by (simp add: repr_pieces_def string_properties_list_def wildcard_eq_unset wildcard_int_eq)

text \<open>
  Claim C1, as the code has it. \<open>Location.__ge__\<close> compares the five string fields
  only: \<open>_contains_loc_as_raw_string\<close> leaves \<open>electorate\<close> out, as its docstring says.
  For every filter \<open>A\<close> and every record \<open>B\<close> whose string fields are free of the
  delimiter, \<open>A >= B\<close> returns (it never raises) and holds exactly when each of
  \<open>ons_id\<close>, \<open>constituency\<close>, \<open>county\<close>, \<open>region\<close> and \<open>country\<close> that is set in \<open>A\<close>
  equals, ignoring case, the piece that the canonical string of \<open>B\<close> holds for that
  field: the field of \<open>B\<close>, or the wildcard token when \<open>B\<close> leaves it unset. Ignoring
  case is comparing what \<open>str.lower\<close> returns, whatever function \<open>str.lower\<close> is.
\<close>

theorem ge_Location_five_fields:
  assumes "bar_free B"
  shows "ge_Location lower A B =
     Inr (field_matches lower (ons_id A) (ons_id B)
        \<and> field_matches lower (constituency A) (constituency B)
        \<and> field_matches lower (county A) (county B)
        \<and> field_matches lower (region A) (region B)
        \<and> field_matches lower (country A) (country B))"
  unfolding ge_Location_def contains_loc_as_raw_string_def split_repr [OF assms]
  by (cases "ons_id A"; cases "constituency A"; cases "county A"; cases "region A";
      cases "country A")
     (simp_all add: repr_pieces_def string_properties_list_def field_matches_def)

text \<open>
  The theorem at a filter on the constituency name and a fully populated record.
\<close>

theorem ge_Location_five_fields_witness:
  "bar_free (Location_init None (Some ''BUCKINGHAM'') (Some ''Buckinghamshire'')
       (Some ''South East'') (Some ''England'') (Some 75000))
   \<and> ge_Location lower_ascii (Location_init None (Some ''Buckingham'') None None None None)
        (Location_init None (Some ''BUCKINGHAM'') (Some ''Buckinghamshire'')
           (Some ''South East'') (Some ''England'') (Some 75000)) = Inr True"
proof -
  have bf: "bar_free (Location_init None (Some ''BUCKINGHAM'') (Some ''Buckinghamshire'')
       (Some ''South East'') (Some ''England'') (Some 75000))"
    by (simp add: bar_free_def string_properties_list_def Location_init_def)
  show ?thesis
    using bf ge_Location_five_fields [OF bf,
        of lower_ascii "Location_init None (Some ''Buckingham'') None None None None"]
    by (simp add: field_matches_def Location_init_def wildcard_if_none_def lower_ascii_def lower_char_ascii_def)
qed

text \<open>
  Claim C1 as stated fails. A filter whose \<open>electorate\<close> is 1 matches a record whose
  \<open>electorate\<close> is 2; a filter whose \<open>ons_id\<close> is the string of the wildcard token
  matches a record that leaves \<open>ons_id\<close> unset; and a filter on the constituency \<open>b\<close>
  matches a record with no constituency whose \<open>ons_id\<close> contains the delimiter.
\<close>

theorem ge_Location_six_fields_counterexample:
  "ge_Location lower_ascii (Location_init None None None None None (Some 1))
      (Location_init None None None None None (Some 2)) = Inr True
   \<and> ge_Location lower_ascii (Location_init (Some ''*'') None None None None None)
      (Location_init None None None None None None) = Inr True
   \<and> ge_Location lower_ascii (Location_init None (Some ''b'') None None None None)
      (Location_init (Some ''a|b'') None None None None None) = Inr True"
  by (simp add: ge_Location_def contains_loc_as_raw_string_def repr_Location_def
      string_properties_list_def Location_init_def wildcard_if_none_def str_int_def
      str_nat.simps lower_ascii_def lower_char_ascii_def)

text \<open>
  Claim C3, as the code has it. For every \<open>Location\<close> whose string fields are free of
  the delimiter, fully populated or with wildcards, \<open>from_raw_string(repr(L))\<close> returns
  a \<open>Location\<close>, and that \<open>Location\<close> is equal to \<open>L\<close> under \<open>__eq__\<close>.
\<close>

theorem from_raw_string_repr_round_trip:
  assumes "bar_free L"
  shows "\<exists>L'. from_raw_string int_unicode (repr_Location L) = Inr L'
            \<and> eq_Location L' (LocationObj L)"
  unfolding from_raw_string_repr [OF assms]
  by (simp add: eq_Location_def repr_Location_def string_properties_list_def
      Location_init_def wildcard_round)

text \<open>The theorem at a record of the data, whose \<open>ons_id\<close> and county are unset.\<close>

theorem from_raw_string_repr_round_trip_witness:
  "bar_free (Location_init None (Some ''DUNDEE EAST'') None (Some ''Scotland'')
       (Some ''Scotland'') (Some 66210))
   \<and> (\<exists>L'. from_raw_string int_ascii_only
         (repr_Location (Location_init None (Some ''DUNDEE EAST'') None
           (Some ''Scotland'') (Some ''Scotland'') (Some 66210))) = Inr L'
        \<and> eq_Location L' (LocationObj (Location_init None (Some ''DUNDEE EAST'') None
         (Some ''Scotland'') (Some ''Scotland'') (Some 66210))))"
proof -
  have bf: "bar_free (Location_init None (Some ''DUNDEE EAST'') None (Some ''Scotland'')
       (Some ''Scotland'') (Some 66210))"
    by (simp add: bar_free_def string_properties_list_def Location_init_def)
  from bf from_raw_string_repr_round_trip [OF bf, of int_ascii_only] show ?thesis by simp
qed

text \<open>
  Claim C3 as stated fails. The encoding has no escape for the delimiter: a \<open>Location\<close>
  whose \<open>ons_id\<close> is \<open>a|b\<close> and whose \<open>electorate\<close> is 5 is read back with the
  constituency \<open>b\<close> and no electorate, which is not equal to it; with a country \<open>x\<close>
  instead of the electorate, reading back raises \<open>ValueError\<close>.
\<close>

theorem from_raw_string_repr_round_trip_counterexample:
  "from_raw_string int_ascii_only
      (repr_Location (Location_init (Some ''a|b'') None None None None (Some 5)))
     = Inr (Location_init (Some ''a'') (Some ''b'') None None None None)
   \<and> \<not> eq_Location (Location_init (Some ''a'') (Some ''b'') None None None None)
        (LocationObj (Location_init (Some ''a|b'') None None None None (Some 5)))
   \<and> from_raw_string int_ascii_only
      (repr_Location (Location_init (Some ''a|b'') None None None (Some ''x'') None))
     = Inl ValueError"
  by (simp add: from_raw_string_def eq_Location_def repr_Location_def
      string_properties_list_def Location_init_def wildcard_if_none_def str_int_def
      str_nat.simps wildcard_to_nonetype_def py_int_def is_ascii_def int_strip_def
      int_isspace_def nat_of_digits_def digit_val_def Let_def)

text \<open>
  Claim C10. \<open>__eq__\<close> and \<open>__hash__\<close> read nothing but the canonical string: for every
  \<open>Location\<close> \<open>A\<close> and every object \<open>B\<close>, \<open>A == B\<close> holds exactly when the two
  \<open>repr\<close> strings are the same, and two \<open>Location\<close>s with the same \<open>repr\<close> have the same
  hash, whatever the string hash of the interpreter is. For every \<open>Location\<close> \<open>L\<close> and
  each of its five string fields, \<open>L\<close> with that field set to the string of the
  wildcard token is equal to, and hashes as, \<open>L\<close> with that field unset. And when no
  string field contains the delimiter, two \<open>Location\<close>s are equal exactly when their
  electorates are the same and their string fields are the same once the string of
  the wildcard token is read as unset.
\<close>

theorem Location_eq_hash_by_repr:
  "(eq_Location A B \<longleftrightarrow> repr_Location A = repr_object B)
   \<and> (repr_Location A = repr_Location A' \<longrightarrow> hash_Location h A = hash_Location h A')
   \<and> eq_Location (L\<lparr>ons_id := Some ''*''\<rparr>) (LocationObj (L\<lparr>ons_id := None\<rparr>))
   \<and> eq_Location (L\<lparr>constituency := Some ''*''\<rparr>) (LocationObj (L\<lparr>constituency := None\<rparr>))
   \<and> eq_Location (L\<lparr>county := Some ''*''\<rparr>) (LocationObj (L\<lparr>county := None\<rparr>))
   \<and> eq_Location (L\<lparr>region := Some ''*''\<rparr>) (LocationObj (L\<lparr>region := None\<rparr>))
   \<and> eq_Location (L\<lparr>country := Some ''*''\<rparr>) (LocationObj (L\<lparr>country := None\<rparr>))
   \<and> hash_Location h (L\<lparr>ons_id := Some ''*''\<rparr>) = hash_Location h (L\<lparr>ons_id := None\<rparr>)
   \<and> hash_Location h (L\<lparr>constituency := Some ''*''\<rparr>)
       = hash_Location h (L\<lparr>constituency := None\<rparr>)
   \<and> hash_Location h (L\<lparr>county := Some ''*''\<rparr>) = hash_Location h (L\<lparr>county := None\<rparr>)
   \<and> hash_Location h (L\<lparr>region := Some ''*''\<rparr>) = hash_Location h (L\<lparr>region := None\<rparr>)
   \<and> hash_Location h (L\<lparr>country := Some ''*''\<rparr>) = hash_Location h (L\<lparr>country := None\<rparr>)
   \<and> eq_Location (Location_init (Some ''*'') None None None None None)
        (LocationObj (Location_init None None None None None None))
   \<and> (bar_free A \<and> bar_free A' \<longrightarrow>
        (eq_Location A (LocationObj A') \<longleftrightarrow>
           unset_if_wildcard (ons_id A) = unset_if_wildcard (ons_id A')
           \<and> unset_if_wildcard (constituency A) = unset_if_wildcard (constituency A')
           \<and> unset_if_wildcard (county A) = unset_if_wildcard (county A')
           \<and> unset_if_wildcard (region A) = unset_if_wildcard (region A')
           \<and> unset_if_wildcard (country A) = unset_if_wildcard (country A')
           \<and> electorate A = electorate A'))"
proof -
  have 1: "eq_Location A B \<longleftrightarrow> repr_Location A = repr_object B"
    by (simp add: eq_Location_def)
  have 2: "repr_Location A = repr_Location A' \<longrightarrow> hash_Location h A = hash_Location h A'"
    by (simp add: hash_Location_def)
  have r: "repr_Location (L\<lparr>ons_id := Some ''*''\<rparr>) = repr_Location (L\<lparr>ons_id := None\<rparr>)"
    "repr_Location (L\<lparr>constituency := Some ''*''\<rparr>) = repr_Location (L\<lparr>constituency := None\<rparr>)"
    "repr_Location (L\<lparr>county := Some ''*''\<rparr>) = repr_Location (L\<lparr>county := None\<rparr>)"
    "repr_Location (L\<lparr>region := Some ''*''\<rparr>) = repr_Location (L\<lparr>region := None\<rparr>)"
    "repr_Location (L\<lparr>country := Some ''*''\<rparr>) = repr_Location (L\<lparr>country := None\<rparr>)"
    by (simp_all add: repr_Location_def string_properties_list_def wildcard_if_none_def)
  have 3: "eq_Location (Location_init (Some ''*'') None None None None None)
        (LocationObj (Location_init None None None None None None))"
    by (simp add: eq_Location_def repr_Location_def string_properties_list_def
        Location_init_def wildcard_if_none_def)
  have 4: "bar_free A \<and> bar_free A' \<longrightarrow>
        (eq_Location A (LocationObj A') \<longleftrightarrow>
           unset_if_wildcard (ons_id A) = unset_if_wildcard (ons_id A')
           \<and> unset_if_wildcard (constituency A) = unset_if_wildcard (constituency A')
           \<and> unset_if_wildcard (county A) = unset_if_wildcard (county A')
           \<and> unset_if_wildcard (region A) = unset_if_wildcard (region A')
           \<and> unset_if_wildcard (country A) = unset_if_wildcard (country A')
           \<and> electorate A = electorate A')"
    using eq_Location_fields [of A A'] by blast
  show ?thesis
    using 1 2 3 4 by (simp only: eq_Location_def hash_Location_def repr_object.simps r)
qed

text \<open>
  The theorem at two \<open>Location\<close>s that differ in how the constituency is left open,
  with the length of the string as its hash.
\<close>

theorem Location_eq_hash_by_repr_witness:
  "bar_free (Location_init None (Some ''*'') None None (Some ''Wales'') (Some 7))
   \<and> bar_free (Location_init None None None None (Some ''Wales'') (Some 7))
   \<and> eq_Location (Location_init None (Some ''*'') None None (Some ''Wales'') (Some 7))
     (LocationObj (Location_init None None None None (Some ''Wales'') (Some 7)))
   \<and> repr_Location (Location_init None (Some ''*'') None None (Some ''Wales'') (Some 7))
       = repr_Location (Location_init None None None None (Some ''Wales'') (Some 7))
   \<and> hash_Location (\<lambda>s. int (length s))
        (Location_init None (Some ''*'') None None (Some ''Wales'') (Some 7))
       = hash_Location (\<lambda>s. int (length s))
        (Location_init None None None None (Some ''Wales'') (Some 7))"
proof -
  have bf: "bar_free (Location_init None (Some ''*'') None None (Some ''Wales'') (Some 7))"
    "bar_free (Location_init None None None None (Some ''Wales'') (Some 7))"
    by (simp_all add: bar_free_def string_properties_list_def Location_init_def)
  have r: "repr_Location (Location_init None (Some ''*'') None None (Some ''Wales'') (Some 7))
       = repr_Location (Location_init None None None None (Some ''Wales'') (Some 7))"
    by (simp add: repr_Location_def string_properties_list_def Location_init_def
        wildcard_if_none_def)
  from Location_eq_hash_by_repr
    [of "Location_init None (Some ''*'') None None (Some ''Wales'') (Some 7)"
        "LocationObj (Location_init None None None None (Some ''Wales'') (Some 7))"
        "Location_init None None None None (Some ''Wales'') (Some 7)"
        "\<lambda>s. int (length s)"]
  have "eq_Location (Location_init None (Some ''*'') None None (Some ''Wales'') (Some 7))
          (LocationObj (Location_init None None None None (Some ''Wales'') (Some 7)))
        \<and> hash_Location (\<lambda>s. int (length s))
            (Location_init None (Some ''*'') None None (Some ''Wales'') (Some 7))
          = hash_Location (\<lambda>s. int (length s))
            (Location_init None None None None (Some ''Wales'') (Some 7))"
    using r bf by (simp add: unset_if_wildcard_def Location_init_def)
  with bf r show ?thesis by simp
qed

section \<open>Properties of names.py and colors.py\<close>

text \<open>
  A consistent cache returns what the function returns, and stays consistent.
\<close>

lemma lru_cache_value:
  assumes "cache_consistent f c"
  shows "fst (fst (lru_cache f c k)) = fst (f k)"
proof (cases "map_of c k")
  case None
  then show ?thesis
    by (cases "f k"; cases "fst (f k)") (auto simp: lru_cache_def)
next
  case (Some r)
  then have "(k, r) \<in> set c" by (rule map_of_SomeD)
  with assms have "fst (f k) = Inr r"
    by (auto simp: cache_consistent_def list_all_iff)
  with Some show ?thesis by (simp add: lru_cache_def)
qed

lemma lru_cache_events:
  "snd (fst (lru_cache f c k)) = (if map_of c k = None then snd (f k) else [])"
  by (cases "map_of c k"; cases "f k"; cases "fst (f k)") (auto simp: lru_cache_def)

lemma lru_cache_consistent:
  assumes "cache_consistent f c"
  shows "cache_consistent f (snd (lru_cache f c k))"
proof (cases "map_of c k")
  case None
  show ?thesis
  proof (cases "f k")
    case (Pair r evs)
    show ?thesis
    proof (cases r)
      case (Inl e)
      with None Pair assms show ?thesis by (simp add: lru_cache_def)
    next
      case (Inr v)
      have "set (tl c) \<subseteq> set c" by (cases c) auto
      with None Pair Inr assms show ?thesis
        by (auto simp: lru_cache_def cache_consistent_def list_all_iff)
    qed
  qed
next
  case (Some r)
  then have "(k, r) \<in> set c" by (rule map_of_SomeD)
  with assms have "fst (f k) = Inr r"
    by (auto simp: cache_consistent_def list_all_iff)
  with Some assms show ?thesis
    by (auto simp: lru_cache_def cache_consistent_def list_all_iff)
qed

lemma cache_consistent_empty: "cache_consistent f []"
  by (simp add: cache_consistent_def)

text \<open>How the usual forms of a call bind.\<close>

lemma bind_official_positional: "bind_official (Args n [a, w, e], []) = Inr (n, a, w, e)"
  by (simp add: bind_official_def)

lemma bind_official_defaults: "bind_official (Args n [], []) = Inr (n, True, True, False)"
  by (simp add: bind_official_def)

lemma bind_official_warn_keyword:
  "bind_official (Args n [], [Warn_on_fuzzy_match w]) = Inr (n, True, w, False)"
  by (simp add: bind_official_def)

lemma official_value:
  assumes "cache_consistent (official_function lower strip T ex) cache"
    and "bind_official call = Inr (n, a, w, e)"
  shows "fst (fst (official lower strip T ex cache call))
     = fst (official_wrapped lower strip T ex n a w e)"
  unfolding official_def lru_cache_value [OF assms(1)]
  by (simp add: official_function_def assms(2))

lemma official_outcome:
  assumes "cache_consistent (official_function lower strip T ex) cache"
    and "bind_official call = Inr (n, a, w, e)"
    and "official_wrapped lower strip T ex n a w e = (r, [])"
  shows "fst (official lower strip T ex cache call) = (r, [])"
proof -
  let ?f = "official_function lower strip T ex"
  have fk: "?f call = (r, [])" using assms(2,3) by (simp add: official_function_def)
  have 1: "fst (fst (lru_cache ?f cache call)) = r"
    using lru_cache_value [OF assms(1), of call] fk by simp
  have 2: "snd (fst (lru_cache ?f cache call)) = []"
    using lru_cache_events [of ?f cache call] fk by simp
  from 1 2 show ?thesis by (simp add: official_def prod_eq_iff)
qed

lemma official_wrapped_warn_irrelevant:
  "fst (official_wrapped lower strip T ex n a True e)
     = fst (official_wrapped lower strip T ex n a False e)"
  by (simp add: official_wrapped_def Let_def split: pyval.splits option.splits prod.splits)

text \<open>
  On a string of ASCII characters, folding the case leaves the blanks alone: a string
  that is empty after trimming is so after folding too.
\<close>

lemma isspace_lower_char_ascii: "isspace_ascii (lower_char_ascii c) = isspace_ascii c"
  by (auto simp: isspace_ascii_def lower_char_ascii_def)

lemma dropWhile_isspace_lower_ascii:
  "dropWhile isspace_ascii (map lower_char_ascii s)
     = map lower_char_ascii (dropWhile isspace_ascii s)"
  by (induction s) (simp_all add: isspace_lower_char_ascii)

lemma strip_lower_ascii: "strip_ascii (lower_ascii s) = lower_ascii (strip_ascii s)"
  by (simp add: strip_ascii_def lower_ascii_def dropWhile_isspace_lower_ascii rev_map)

lemma strip_lower_ascii_empty: "strip_ascii t = [] \<Longrightarrow> strip_ascii (lower_ascii t) = []"
  unfolding strip_lower_ascii by (simp add: lower_ascii_def)

text \<open>
  The table of the examples is what \<open>read_nicknames_file\<close> returns for a file of one
  row.
\<close>

lemma example_nicknames_read:
  "read_nicknames_file lower_ascii strip_ascii
      [[''Conservative and Unionist Party'', ''Conservative Party'', ''Tory'']]
     = Inr (example_nicknames,
            [(''conservative and unionist party'', ''Conservative Party'')])"
  by (simp add: read_nicknames_file_def nicknames_row_def example_nicknames_def
      lower_ascii_def lower_char_ascii_def strip_ascii_def isspace_ascii_def Let_def)

text \<open>
  Claim C5. On any consistent cache and for every form of the call, whatever the
  other arguments are bound to: \<open>official\<close> of a missing value (\<open>None\<close> or \<open>NaN\<close>)
  returns \<open>None\<close> when \<open>exception_on_null_value\<close> is false and raises
  \<open>PartyNicknameEmpty\<close> when it is true; \<open>official\<close> of a string raises
  \<open>PartyNicknameEmpty\<close> when the string is empty once folded and trimmed, which is the
  test the code makes, and so when the string is empty once trimmed, since folding the
  case keeps a blank string blank. No call of these searches or warns.
\<close>

theorem official_input_validation:
  assumes "cache_consistent (official_function lower strip T ex) cache"
    and "bind_official call = Inr (nickname, a, w, e)"
  shows "(isna nickname \<longrightarrow>
            fst (official lower strip T ex cache call)
              = (if e then Inl PartyNicknameEmpty else Inr None, []))
       \<and> (nickname = Str s \<and> strip (lower s) = [] \<longrightarrow>
            fst (official lower strip T ex cache call) = (Inl PartyNicknameEmpty, []))
       \<and> (nickname = Str s \<and> strip s = [] \<and> (\<forall>t. strip t = [] \<longrightarrow> strip (lower t) = [])
            \<longrightarrow> fst (official lower strip T ex cache call) = (Inl PartyNicknameEmpty, []))"
proof -
  have 1: "isna nickname \<Longrightarrow>
      official_wrapped lower strip T ex nickname a w e
        = (if e then Inl PartyNicknameEmpty else Inr None, [])"
    by (simp add: official_wrapped_def)
  have 2: "strip (lower s) = [] \<Longrightarrow>
      official_wrapped lower strip T ex (Str s) a w e = (Inl PartyNicknameEmpty, [])"
    by (simp add: official_wrapped_def)
  show ?thesis
  proof (intro conjI impI)
    assume "isna nickname"
    then show "fst (official lower strip T ex cache call)
        = (if e then Inl PartyNicknameEmpty else Inr None, [])"
      by (intro official_outcome [OF assms] 1)
  next
    assume "nickname = Str s \<and> strip (lower s) = []"
    then show "fst (official lower strip T ex cache call) = (Inl PartyNicknameEmpty, [])"
      using official_outcome [OF assms, of "Inl PartyNicknameEmpty"] 2 by simp
  next
    assume "nickname = Str s \<and> strip s = [] \<and> (\<forall>t. strip t = [] \<longrightarrow> strip (lower t) = [])"
    then have "nickname = Str s" "strip (lower s) = []" by simp_all
    then show "fst (official lower strip T ex cache call) = (Inl PartyNicknameEmpty, [])"
      using official_outcome [OF assms, of "Inl PartyNicknameEmpty"] 2 by simp
  qed
qed

text \<open>
  The theorem on the empty cache: at \<open>None\<close> with the default arguments, at a \<open>NaN\<close>
  with \<open>exception_on_null_value\<close> given by keyword, and at a string of one space, by
  the third conjunct: \<open>lower_ascii\<close> keeps a blank string blank.
\<close>

theorem official_input_validation_witness:
  "cache_consistent (official_function lower_ascii strip_ascii example_nicknames first_choice) []
   \<and> fst (official lower_ascii strip_ascii example_nicknames first_choice []
            (Args PyNone [], [])) = (Inr None, [])
   \<and> fst (official lower_ascii strip_ascii example_nicknames first_choice []
            (Args (NaN 0) [], [Exception_on_null_value True])) = (Inl PartyNicknameEmpty, [])
   \<and> strip_ascii '' '' = []
   \<and> fst (official lower_ascii strip_ascii example_nicknames first_choice []
            (Args (Str '' '') [True, True, False], [])) = (Inl PartyNicknameEmpty, [])"
proof -
  have c: "cache_consistent
      (official_function lower_ascii strip_ascii example_nicknames first_choice) []"
    by (simp add: cache_consistent_def)
  have s: "strip_ascii '' '' = []" by (simp add: strip_ascii_def isspace_ascii_def)
  have l: "\<forall>t. strip_ascii t = [] \<longrightarrow> strip_ascii (lower_ascii t) = []"
    using strip_lower_ascii_empty by blast
  have b1: "bind_official (Args PyNone [], []) = Inr (PyNone, True, True, False)"
    and b2: "bind_official (Args (NaN 0) [], [Exception_on_null_value True])
      = Inr (NaN 0, True, True, True)"
    and b3: "bind_official (Args (Str '' '') [True, True, False], [])
      = Inr (Str '' '', True, True, False)"
    by (simp_all add: bind_official_def)
  have "fst (official lower_ascii strip_ascii example_nicknames first_choice []
            (Args (Str '' '') [True, True, False], [])) = (Inl PartyNicknameEmpty, [])"
    using s l official_input_validation [OF c b3, of "'' ''"] by blast
  with c s official_input_validation [OF c b1] official_input_validation [OF c b2]
  show ?thesis by simp
qed

text \<open>
  Claim C6. On any consistent cache and for every form of the call, for every
  non-empty nickname, that is every string whose trimmed, case-folded form is not
  empty, whose trimmed, case-folded form is a key of the nickname table, \<open>official\<close>
  returns the official name of that key, with no fuzzy search and no warning, for all
  settings of \<open>allow_fuzzy_match\<close>, \<open>warn_on_fuzzy_match\<close> and
  \<open>exception_on_null_value\<close>, and whatever the fuzzy matcher is.
\<close>

theorem official_exact_match:
  assumes "cache_consistent (official_function lower strip T ex) cache"
    and "bind_official call = Inr (Str s, a, w, e)"
    and "strip (lower s) \<noteq> []"
    and "map_of T (strip (lower s)) = Some name"
  shows "fst (official lower strip T ex cache call) = (Inr (Some name), [])"
  using assms(3,4)
  by (intro official_outcome [OF assms(1,2)]) (simp add: official_wrapped_def)

text \<open>The theorem on the empty cache, at \<open>Tory\<close> between two spaces, fuzzy matching off.\<close>

theorem official_exact_match_witness:
  "cache_consistent (official_function lower_ascii strip_ascii example_nicknames first_choice) []
   \<and> bind_official (Args (Str '' Tory '') [False], [])
       = Inr (Str '' Tory '', False, True, False)
   \<and> strip_ascii (lower_ascii '' Tory '') = ''tory''
   \<and> map_of example_nicknames ''tory'' = Some ''Conservative and Unionist Party''
   \<and> fst (official lower_ascii strip_ascii example_nicknames first_choice []
            (Args (Str '' Tory '') [False], []))
        = (Inr (Some ''Conservative and Unionist Party''), [])"
proof -
  have c: "cache_consistent
      (official_function lower_ascii strip_ascii example_nicknames first_choice) []"
    by (simp add: cache_consistent_def)
  have b: "bind_official (Args (Str '' Tory '') [False], [])
       = Inr (Str '' Tory '', False, True, False)"
    by (simp add: bind_official_def)
  have s: "strip_ascii (lower_ascii '' Tory '') = ''tory''"
    by (simp add: strip_ascii_def isspace_ascii_def lower_ascii_def lower_char_ascii_def)
  have m: "map_of example_nicknames ''tory'' = Some ''Conservative and Unionist Party''"
    by (simp add: example_nicknames_def)
  have n: "strip_ascii (lower_ascii '' Tory '') \<noteq> []" using s by simp
  have m': "map_of example_nicknames (strip_ascii (lower_ascii '' Tory ''))
      = Some ''Conservative and Unionist Party''" using s m by simp
  from c b s m official_exact_match [OF c b n m'] show ?thesis by simp
qed

text \<open>
  Claim C8. \<open>by_official_party_name\<close> of \<open>None\<close> returns \<open>None\<close>. Of a name that the
  color table holds, spelled as the table spells it, it returns the stored color, and
  warns exactly when the name is \<open>Green Party\<close>; of a name the table does not hold it
  raises \<open>NoColorForThisParty\<close>, without a warning, and it raises that exactly then.
\<close>

theorem by_official_party_name_contract:
  "by_official_party_name C None = (Inr None, [])
   \<and> (map_of C name = Some color \<longrightarrow>
        by_official_party_name C (Some name) =
          (Inr (Some color),
           if name = ''Green Party'' then [UKPoliticsWarning green_party_warning] else []))
   \<and> (map_of C name = None \<longrightarrow>
        by_official_party_name C (Some name) = (Inl (NoColorForThisParty name), []))
   \<and> (snd (by_official_party_name C (Some name)) \<noteq> [] \<longleftrightarrow>
        name = ''Green Party'' \<and> map_of C name \<noteq> None)
   \<and> (fst (by_official_party_name C (Some name)) = Inl (NoColorForThisParty name) \<longleftrightarrow>
        map_of C name = None)"
  by (auto simp: by_official_party_name_def split: option.splits)

text \<open>
  The theorem at a table of two colors: \<open>Green Party\<close> with its warning, a name found
  without one, and the same name in lower case, which the table does not hold.
\<close>

theorem by_official_party_name_contract_witness:
  "map_of example_colors ''Green Party'' = Some ''#6AB023''
   \<and> by_official_party_name example_colors (Some ''Green Party'')
       = (Inr (Some ''#6AB023''), [UKPoliticsWarning green_party_warning])
   \<and> map_of example_colors ''Labour Party'' = Some ''#E4003B''
   \<and> by_official_party_name example_colors (Some ''Labour Party'')
       = (Inr (Some ''#E4003B''), [])
   \<and> map_of example_colors ''labour party'' = None
   \<and> by_official_party_name example_colors (Some ''labour party'')
       = (Inl (NoColorForThisParty ''labour party''), [])"
proof -
  have 1: "map_of example_colors ''Green Party'' = Some ''#6AB023''"
    and 2: "map_of example_colors ''Labour Party'' = Some ''#E4003B''"
    and 3: "map_of example_colors ''labour party'' = None"
    by (simp_all add: example_colors_def)
  from 1 2 3
    by_official_party_name_contract [of example_colors "''Green Party''" "''#6AB023''"]
    by_official_party_name_contract [of example_colors "''Labour Party''" "''#E4003B''"]
    by_official_party_name_contract [of example_colors "''labour party''"]
  show ?thesis by simp
qed

text \<open>
  Claim C9. On any consistent cache and for every setting of the other arguments,
  \<open>official\<close> with \<open>warn_on_fuzzy_match\<close> true returns the value, or raises the
  exception, that it does with \<open>warn_on_fuzzy_match\<close> false: for the calls that pass
  the four arguments by position, and for any two forms of call that bind the other
  arguments alike. What \<open>by_official_party_name\<close> returns or raises is the lookup in the
  color table alone, for \<open>Green Party\<close> as for every other name: the warning changes
  nothing of it.
\<close>

theorem warnings_do_not_alter_values:
  assumes "cache_consistent (official_function lower strip T ex) cache"
  shows "fst (fst (official lower strip T ex cache (Args n [a, True, e], [])))
         = fst (fst (official lower strip T ex cache (Args n [a, False, e], [])))
       \<and> (bind_official call = Inr (n, a, True, e) \<and> bind_official call' = Inr (n, a, False, e)
            \<longrightarrow> fst (fst (official lower strip T ex cache call))
                 = fst (fst (official lower strip T ex cache call')))
       \<and> fst (by_official_party_name C party_name) =
           (case party_name of
              None \<Rightarrow> Inr None
            | Some name \<Rightarrow>
                (case map_of C name of
                   Some color \<Rightarrow> Inr (Some color)
                 | None \<Rightarrow> Inl (NoColorForThisParty name)))"
proof -
  have 1: "fst (fst (official lower strip T ex cache (Args n [a, True, e], [])))
         = fst (fst (official lower strip T ex cache (Args n [a, False, e], [])))"
    by (simp only: official_value [OF assms bind_official_positional]
        official_wrapped_warn_irrelevant)
  have 2: "bind_official call = Inr (n, a, True, e) \<and> bind_official call' = Inr (n, a, False, e)
            \<longrightarrow> fst (fst (official lower strip T ex cache call))
                 = fst (fst (official lower strip T ex cache call'))"
  proof
    assume b: "bind_official call = Inr (n, a, True, e) \<and> bind_official call' = Inr (n, a, False, e)"
    then have "bind_official call = Inr (n, a, True, e)"
      and "bind_official call' = Inr (n, a, False, e)" by simp_all
    then show "fst (fst (official lower strip T ex cache call))
                 = fst (fst (official lower strip T ex cache call'))"
      by (simp only: official_value [OF assms] official_wrapped_warn_irrelevant)
  qed
  have 3: "fst (by_official_party_name C party_name) =
           (case party_name of
              None \<Rightarrow> Inr None
            | Some name \<Rightarrow>
                (case map_of C name of
                   Some color \<Rightarrow> Inr (Some color)
                 | None \<Rightarrow> Inl (NoColorForThisParty name)))"
    by (simp add: by_official_party_name_def split: option.splits)
  from 1 2 3 show ?thesis by (intro conjI)
qed

text \<open>
  The theorem at \<open>tories\<close>, which only the fuzzy search resolves, and at the color of
  \<open>Green Party\<close>.
\<close>

theorem warnings_do_not_alter_values_witness:
  "cache_consistent (official_function lower_ascii strip_ascii example_nicknames first_choice) []
   \<and> official lower_ascii strip_ascii example_nicknames first_choice []
         (Args (Str ''tories'') [True, True, False], [])
       = ((Inr (Some ''Conservative and Unionist Party''),
           [FuzzySearch ''tories'',
            LoggerWarning ''tories'' ''Conservative and Unionist Party'']),
          [((Args (Str ''tories'') [True, True, False], []),
            Some ''Conservative and Unionist Party'')])
   \<and> fst (fst (official lower_ascii strip_ascii example_nicknames first_choice []
         (Args (Str ''tories'') [True, False, False], [])))
       = Inr (Some ''Conservative and Unionist Party'')
   \<and> bind_official (Args (Str ''tories'') [], []) = Inr (Str ''tories'', True, True, False)
   \<and> bind_official (Args (Str ''tories'') [], [Warn_on_fuzzy_match False])
       = Inr (Str ''tories'', True, False, False)
   \<and> fst (fst (official lower_ascii strip_ascii example_nicknames first_choice []
         (Args (Str ''tories'') [], [])))
       = fst (fst (official lower_ascii strip_ascii example_nicknames first_choice []
         (Args (Str ''tories'') [], [Warn_on_fuzzy_match False])))
   \<and> by_official_party_name example_colors (Some ''Green Party'')
       = (Inr (Some ''#6AB023''), [UKPoliticsWarning green_party_warning])"
proof -
  have c: "cache_consistent
      (official_function lower_ascii strip_ascii example_nicknames first_choice) []"
    by (simp add: cache_consistent_def)
  have 1: "official lower_ascii strip_ascii example_nicknames first_choice []
         (Args (Str ''tories'') [True, True, False], [])
       = ((Inr (Some ''Conservative and Unionist Party''),
           [FuzzySearch ''tories'',
            LoggerWarning ''tories'' ''Conservative and Unionist Party'']),
          [((Args (Str ''tories'') [True, True, False], []),
            Some ''Conservative and Unionist Party'')])"
    by (simp add: official_def lru_cache_def official_function_def bind_official_def
        official_wrapped_def strip_ascii_def isspace_ascii_def lower_ascii_def lower_char_ascii_def Let_def
        example_nicknames_def first_choice_def maxsize_def)
  have b: "bind_official (Args (Str ''tories'') [], []) = Inr (Str ''tories'', True, True, False)"
    "bind_official (Args (Str ''tories'') [], [Warn_on_fuzzy_match False])
       = Inr (Str ''tories'', True, False, False)"
    by (simp_all add: bind_official_def)
  have 3: "by_official_party_name example_colors (Some ''Green Party'')
       = (Inr (Some ''#6AB023''), [UKPoliticsWarning green_party_warning])"
    by (simp add: by_official_party_name_def example_colors_def)
  from c 1 b 3
    warnings_do_not_alter_values [OF c, of "Str ''tories''" True False
      "(Args (Str ''tories'') [], [])" "(Args (Str ''tories'') [], [Warn_on_fuzzy_match False])"
      example_colors "Some ''Green Party''"]
  show ?thesis by simp
qed

section \<open>Properties of names.py: the cache over a run of calls\<close>

text \<open>
  A call whose key the cache does not hold runs the function and returns what it
  returns, events included. A call that returned a value is answered from the cache
  when it is repeated at once, without a search or a warning.
\<close>

lemma lru_cache_miss:
  assumes "map_of c k = None"
  shows "fst (lru_cache f c k) = f k"
    and "fst (f k) = Inr v \<Longrightarrow>
      snd (lru_cache f c k) = (if length c \<ge> maxsize then tl c else c) @ [(k, v)]"
    and "fst (f k) = Inl e \<Longrightarrow> snd (lru_cache f c k) = c"
  using assms by (cases "f k"; cases "fst (f k)"; simp add: lru_cache_def)+

lemma lru_cache_cached:
  assumes "fst (fst (lru_cache f c k)) = Inr v"
  shows "map_of (snd (lru_cache f c k)) k = Some v"
proof (cases "map_of c k")
  case None
  from lru_cache_miss(1) [where f = f and c = c and k = k, OF None] assms have fk: "fst (f k) = Inr v" by simp
  have "map_of (if length c \<ge> maxsize then tl c else c) k = None"
  proof -
    have "set (tl c) \<subseteq> set c" by (cases c) auto
    with None show ?thesis by (auto simp: map_of_eq_None_iff)
  qed
  then show ?thesis
    unfolding lru_cache_miss(2) [where f = f and c = c and k = k and v = v, OF None fk]
    by (simp add: map_add_def)
next
  case (Some r)
  have "map_of (filter (\<lambda>entry. fst entry \<noteq> k) c) k = None"
    by (auto simp: map_of_eq_None_iff)
  with Some assms show ?thesis by (simp add: lru_cache_def map_add_def)
qed

lemma official_repeated_at_once:
  assumes "fst (fst (official lower strip T ex cache call)) = Inr v"
  shows "fst (official lower strip T ex (snd (official lower strip T ex cache call)) call)
     = (Inr v, [])"
proof -
  from assms have "map_of (snd (official lower strip T ex cache call)) call = Some v"
    unfolding official_def by (rule lru_cache_cached)
  then show ?thesis by (simp add: official_def lru_cache_def)
qed

text \<open>
  A run of calls on the same cache, and what a run of distinct calls that return, none
  of them cached, leaves in the cache: the entries in the order of the calls, the
  oldest ones dropped when there are more than the cache has places.
\<close>

lemma official_calls_append:
  "official_calls lower strip T ex c (xs @ ys) =
     (fst (official_calls lower strip T ex c xs)
        @ fst (official_calls lower strip T ex (snd (official_calls lower strip T ex c xs)) ys),
      snd (official_calls lower strip T ex (snd (official_calls lower strip T ex c xs)) ys))"
  by (induction xs arbitrary: c) (simp_all split: prod.splits)

lemma official_calls_misses:
  assumes "length c \<le> maxsize" and "distinct ks"
    and "\<forall>k\<in>set ks. map_of c k = None"
    and "\<forall>k\<in>set ks. \<exists>v. fst (official_function lower strip T ex k) = Inr v"
  shows "official_calls lower strip T ex c ks =
     (map (official_function lower strip T ex) ks,
      drop (length c + length ks - maxsize)
        (c @ map (\<lambda>k. (k, projr (fst (official_function lower strip T ex k)))) ks))"
  using assms
proof (induction ks arbitrary: c)
  case Nil
  then show ?case by simp
next
  case (Cons k ks)
  let ?f = "official_function lower strip T ex"
  let ?g = "\<lambda>k. (k, projr (fst (?f k)))"
  from Cons.prems(4) obtain v where v: "fst (?f k) = Inr v" by auto
  from Cons.prems(3) have miss: "map_of c k = None" by simp
  let ?c' = "(if length c \<ge> maxsize then tl c else c) @ [(k, v)]"
  have out: "fst (official lower strip T ex c k) = ?f k"
    unfolding official_def by (rule lru_cache_miss(1) [where f = ?f and c = c and k = k, OF miss])
  have cache: "snd (official lower strip T ex c k) = ?c'"
    unfolding official_def
    by (rule lru_cache_miss(2) [where f = ?f and c = c and k = k and v = v, OF miss v])
  have len: "length ?c' \<le> maxsize"
    using Cons.prems(1) by (cases c) (auto simp: maxsize_def)
  have sub: "set (if length c \<ge> maxsize then tl c else c) \<subseteq> set c"
    by (cases c) auto
  have none: "\<forall>k'\<in>set ks. map_of ?c' k' = None"
  proof
    fix k' assume k': "k' \<in> set ks"
    with Cons.prems(2) have "k' \<noteq> k" by auto
    moreover from k' Cons.prems(3) have "map_of c k' = None" by simp
    with sub have "map_of (if length c \<ge> maxsize then tl c else c) k' = None"
      by (auto simp: map_of_eq_None_iff)
    ultimately show "map_of ?c' k' = None" by (simp add: map_add_def)
  qed
  from Cons.prems(2) have d: "distinct ks" by simp
  from Cons.prems(4) have r: "\<forall>k\<in>set ks. \<exists>v. fst (?f k) = Inr v" by simp
  note ih = Cons.IH [OF len d none r]
  have drop: "drop (length ?c' + length ks - maxsize) (?c' @ map ?g ks)
      = drop (length c + length (k # ks) - maxsize) (c @ map ?g (k # ks))"
  proof (cases "length c \<ge> maxsize")
    case True
    with Cons.prems(1) have l: "length c = maxsize" by simp
    then have ne: "c \<noteq> []" by (auto simp: maxsize_def)
    then have "length (tl c) + 1 = maxsize" using l by (cases c) auto
    then have "drop (length ?c' + length ks - maxsize) (?c' @ map ?g ks)
        = drop (length ks) (tl c @ (k, v) # map ?g ks)" using True by simp
    also have "\<dots> = drop (Suc (length ks)) (c @ (k, v) # map ?g ks)"
      using ne by (cases c) simp_all
    finally show ?thesis using l v by simp
  next
    case False
    then show ?thesis using v by simp
  qed
  have "official_calls lower strip T ex c (k # ks)
      = (?f k # fst (official_calls lower strip T ex ?c' ks),
         snd (official_calls lower strip T ex ?c' ks))"
    using out cache by (simp add: prod_eq_iff split: prod.splits)
  also have "\<dots> = (map ?f (k # ks),
        drop (length ?c' + length ks - maxsize) (?c' @ map ?g ks))"
    by (simp only: ih fst_conv snd_conv list.map)
  finally show ?case by (simp only: drop)
qed

text \<open>Two forms of call that bind the arguments alike run the same body.\<close>

lemma official_function_bind:
  "bind_official call = bind_official call' \<Longrightarrow>
   official_function lower strip T ex call = official_function lower strip T ex call'"
  by (simp add: official_function_def)

lemma official_first_call:
  "fst (official lower strip T ex [] k) = official_function lower strip T ex k"
  "snd (official lower strip T ex [] k) =
     (case fst (official_function lower strip T ex k) of Inl e \<Rightarrow> [] | Inr v \<Rightarrow> [(k, v)])"
  by (cases "official_function lower strip T ex k";
      cases "fst (official_function lower strip T ex k)";
      simp add: official_def lru_cache_def maxsize_def)+

lemma official_miss:
  "map_of c k = None \<Longrightarrow>
   fst (official lower strip T ex c k) = official_function lower strip T ex k"
  unfolding official_def
  by (rule lru_cache_miss(1) [where f = "official_function lower strip T ex"])

lemma official_calls_Cons:
  "official_calls lower strip T ex c (k # ks) =
     (fst (official lower strip T ex c k)
        # fst (official_calls lower strip T ex (snd (official lower strip T ex c k)) ks),
      snd (official_calls lower strip T ex (snd (official lower strip T ex c k)) ks))"
  by (simp split: prod.splits)

text \<open>
  Claim C4, where the code departs from it. The cache is the one of
  \<open>functools.lru_cache\<close> with its default size: it holds 128 results, and its key is
  the form of the call. For every nickname table and matcher: after a call \<open>k0\<close> and
  128 distinct other calls that return, the same call \<open>k0\<close> runs the body of \<open>official\<close>
  again, with its fuzzy search and its warning, as do all the calls of the run; and
  of two calls that differ in form, the second runs the body whatever the first did,
  also when both bind the same four arguments.
\<close>

theorem official_cache_runs_again:
  assumes "length ks = maxsize" and "distinct ks" and "k0 \<notin> set ks"
    and "\<forall>k\<in>set ks. \<exists>v. fst (official_function lower strip T ex k) = Inr v"
  shows "fst (official_calls lower strip T ex [] (k0 # ks @ [k0]))
           = map (official_function lower strip T ex) (k0 # ks @ [k0])
       \<and> (call \<noteq> call' \<longrightarrow>
            fst (official_calls lower strip T ex [] [call, call'])
              = [official_function lower strip T ex call,
                 official_function lower strip T ex call'])"
proof
  let ?f = "official_function lower strip T ex"
  let ?g = "\<lambda>k. (k, projr (fst (?f k)))"
  let ?c1 = "snd (official lower strip T ex [] k0)"
  have c1: "?c1 = (case fst (?f k0) of Inl e \<Rightarrow> [] | Inr v \<Rightarrow> [(k0, v)])"
    by (rule official_first_call(2))
  have len: "length ?c1 \<le> maxsize"
    unfolding c1 by (simp add: maxsize_def split: sum.splits)
  have none: "\<forall>k\<in>set ks. map_of ?c1 k = None"
    unfolding c1 using assms(3) by (auto split: sum.splits)
  have run: "official_calls lower strip T ex ?c1 ks = (map ?f ks, map ?g ks)"
  proof -
    have "length ?c1 + length ks - maxsize = length ?c1" using assms(1) by simp
    with official_calls_misses [OF len assms(2) none assms(4)] show ?thesis by simp
  qed
  have miss: "map_of (map ?g ks) k0 = None"
    using assms(3) by (auto simp: map_of_eq_None_iff image_image)
  have last: "fst (official lower strip T ex (map ?g ks) k0) = ?f k0"
    using miss by (rule official_miss)
  have tail: "fst (official_calls lower strip T ex ?c1 (ks @ [k0])) = map ?f ks @ [?f k0]"
    unfolding official_calls_append run official_calls_Cons using last by simp
  show "fst (official_calls lower strip T ex [] (k0 # ks @ [k0])) = map ?f (k0 # ks @ [k0])"
    unfolding official_calls_Cons [of lower strip T ex "[]" k0]
    using tail official_first_call(1) [of lower strip T ex k0] by simp
next
  let ?f = "official_function lower strip T ex"
  show "call \<noteq> call' \<longrightarrow>
            fst (official_calls lower strip T ex [] [call, call']) = [?f call, ?f call']"
  proof
    assume ne: "call \<noteq> call'"
    let ?c1 = "snd (official lower strip T ex [] call)"
    have c1: "?c1 = (case fst (?f call) of Inl e \<Rightarrow> [] | Inr v \<Rightarrow> [(call, v)])"
      by (rule official_first_call(2))
    have miss: "map_of ?c1 call' = None"
      unfolding c1 using ne by (auto split: sum.splits)
    have "fst (official lower strip T ex ?c1 call') = ?f call'"
      using miss by (rule official_miss)
    then show "fst (official_calls lower strip T ex [] [call, call']) = [?f call, ?f call']"
      unfolding official_calls_Cons
      using official_first_call(1) [of lower strip T ex call] by simp
  qed
qed

text \<open>
  The calls of the example: they are 128, distinct, all return, and none is
  \<open>official("tories")\<close>, which only the fuzzy search resolves.
\<close>

lemma str_nat_inj: "str_nat n = str_nat m \<Longrightarrow> n = m"
proof -
  assume "str_nat n = str_nat m"
  then have "nat_of_digits (str_nat n) = nat_of_digits (str_nat m)" by simp
  then show "n = m" by (simp add: nat_of_digits_str_nat)
qed

lemma strip_ascii_nonempty:
  assumes "c \<in> set s" and "\<not> isspace_ascii c"
  shows "strip_ascii s \<noteq> []"
proof
  assume "strip_ascii s = []"
  then have "dropWhile isspace_ascii (rev (dropWhile isspace_ascii s)) = []"
    by (simp add: strip_ascii_def)
  then have all: "\<forall>x\<in>set (dropWhile isspace_ascii s). isspace_ascii x"
    by (simp add: dropWhile_eq_Nil_conv)
  have "dropWhile isspace_ascii s = []"
  proof (rule ccontr)
    assume ne: "dropWhile isspace_ascii s \<noteq> []"
    then have "\<not> isspace_ascii (hd (dropWhile isspace_ascii s))" by (rule hd_dropWhile)
    moreover from ne have "hd (dropWhile isspace_ascii s) \<in> set (dropWhile isspace_ascii s)"
      by (rule hd_in_set)
    ultimately show False using all by blast
  qed
  then have "\<forall>x\<in>set s. isspace_ascii x" by (simp add: dropWhile_eq_Nil_conv)
  with assms show False by blast
qed

lemma official_wrapped_first_choice:
  assumes "strip (lower s) \<noteq> []"
  shows "\<exists>v. fst (official_wrapped lower strip example_nicknames first_choice (Str s) True w e)
     = Inr v"
  using assms
  by (simp add: official_wrapped_def Let_def example_nicknames_def first_choice_def
      split: option.splits)

lemma other_calls_return:
  "\<forall>k\<in>set other_calls.
     \<exists>v. fst (official_function lower_ascii strip_ascii example_nicknames first_choice k) = Inr v"
proof
  fix k assume "k \<in> set other_calls"
  then obtain n where k: "k = (Args (Str (''party '' @ str_nat n)) [], [])"
    by (auto simp: other_calls_def)
  have "CHR ''p'' \<in> set (lower_ascii (''party '' @ str_nat n))"
    by (simp add: lower_ascii_def lower_char_ascii_def)
  moreover have "\<not> isspace_ascii CHR ''p''" by (simp add: isspace_ascii_def)
  ultimately have "strip_ascii (lower_ascii (''party '' @ str_nat n)) \<noteq> []"
    by (rule strip_ascii_nonempty)
  from official_wrapped_first_choice [where lower = lower_ascii and strip = strip_ascii
      and s = "''party '' @ str_nat n" and w = True and e = False, OF this]
  show "\<exists>v. fst (official_function lower_ascii strip_ascii example_nicknames first_choice k)
      = Inr v"
    by (simp add: k official_function_def bind_official_def)
qed

lemma other_calls_distinct:
  "length other_calls = maxsize" "distinct other_calls" "call_tories \<notin> set other_calls"
proof -
  show "length other_calls = maxsize" by (simp add: other_calls_def maxsize_def)
  have "inj_on (\<lambda>n. (Args (Str (''party '' @ str_nat n)) [], [] :: keyword list)) (set [0..<128])"
    by (rule inj_onI) (simp add: str_nat_inj)
  then show "distinct other_calls" by (simp add: other_calls_def distinct_map)
  show "call_tories \<notin> set other_calls" by (auto simp: other_calls_def call_tories_def)
qed

lemma official_function_tories:
  "official_function lower_ascii strip_ascii example_nicknames first_choice call_tories
     = (Inr (Some ''Conservative and Unionist Party''),
        [FuzzySearch ''tories'', LoggerWarning ''tories'' ''Conservative and Unionist Party''])"
  "official_function lower_ascii strip_ascii example_nicknames first_choice
       (Args (Str ''tories'') [], [Warn_on_fuzzy_match True])
     = (Inr (Some ''Conservative and Unionist Party''),
        [FuzzySearch ''tories'', LoggerWarning ''tories'' ''Conservative and Unionist Party''])"
  by (simp_all add: call_tories_def official_function_def bind_official_def
      official_wrapped_def strip_ascii_def isspace_ascii_def lower_ascii_def
      lower_char_ascii_def Let_def example_nicknames_def first_choice_def)

text \<open>
  The theorem on the example: \<open>official("tories")\<close> searches and warns at the first call
  and again at the last one, 128 other calls later; and
  \<open>official("tories", warn_on_fuzzy_match=True)\<close>, which binds the same four arguments,
  searches and warns right after \<open>official("tories")\<close> did.
\<close>

theorem official_cache_runs_again_witness:
  "length other_calls = maxsize \<and> distinct other_calls \<and> call_tories \<notin> set other_calls
   \<and> hd (fst (official_calls lower_ascii strip_ascii example_nicknames first_choice []
                (call_tories # other_calls @ [call_tories])))
       = (Inr (Some ''Conservative and Unionist Party''),
          [FuzzySearch ''tories'', LoggerWarning ''tories'' ''Conservative and Unionist Party''])
   \<and> last (fst (official_calls lower_ascii strip_ascii example_nicknames first_choice []
                (call_tories # other_calls @ [call_tories])))
       = (Inr (Some ''Conservative and Unionist Party''),
          [FuzzySearch ''tories'', LoggerWarning ''tories'' ''Conservative and Unionist Party''])
   \<and> bind_official call_tories
       = bind_official (Args (Str ''tories'') [], [Warn_on_fuzzy_match True])
   \<and> fst (official_calls lower_ascii strip_ascii example_nicknames first_choice []
           [call_tories, (Args (Str ''tories'') [], [Warn_on_fuzzy_match True])])
       = [(Inr (Some ''Conservative and Unionist Party''),
           [FuzzySearch ''tories'',
            LoggerWarning ''tories'' ''Conservative and Unionist Party'']),
          (Inr (Some ''Conservative and Unionist Party''),
           [FuzzySearch ''tories'',
            LoggerWarning ''tories'' ''Conservative and Unionist Party''])]"
proof -
  have ne: "call_tories \<noteq> (Args (Str ''tories'') [], [Warn_on_fuzzy_match True])"
    by (simp add: call_tories_def)
  have b: "bind_official call_tories
       = bind_official (Args (Str ''tories'') [], [Warn_on_fuzzy_match True])"
    by (simp add: call_tories_def bind_official_def)
  from official_cache_runs_again [OF other_calls_distinct other_calls_return, of call_tories
      "(Args (Str ''tories'') [], [Warn_on_fuzzy_match True])"]
    ne b other_calls_distinct
  show ?thesis by (simp add: official_function_tories)
qed

section \<open>Properties of elections.py: reading a line\<close>

text \<open>
  The relabelling rules of \<open>_vote_line_to_object\<close>: \<open>PC/SNP\<close> becomes \<open>SNP\<close> in Scotland
  and \<open>PC\<close> in Wales, \<open>Green\<close> becomes the name of the Green party of the country, and
  every other label goes to \<open>names.official\<close> as it is.
\<close>

lemma relabel_rules:
  "relabel (Str ''PC/SNP'') (Some ''Scotland'') = Str ''SNP''
   \<and> relabel (Str ''PC/SNP'') (Some ''Wales'') = Str ''PC''
   \<and> relabel (Str ''Green'') (Some ''Scotland'') = Str ''Scottish Green Party''
   \<and> relabel (Str ''Green'') (Some ''Northern Ireland'') = Str ''Green Party Northern Ireland''
   \<and> (c \<noteq> Some ''Scotland'' \<and> c \<noteq> Some ''Northern Ireland'' \<longrightarrow>
        relabel (Str ''Green'') c = Str ''Green Party of England and Wales'')
   \<and> (label \<noteq> Str ''PC/SNP'' \<and> label \<noteq> Str ''Green'' \<longrightarrow> relabel label c = label)"
  by (simp add: relabel_def)

text \<open>A line of the data whose party the nickname table holds becomes a record.\<close>

lemma vote_line_to_object_example:
  "vote_line_to_object lower_ascii strip_ascii int_ascii_only example_nicknames first_choice
     (\<lambda>s. Inr (2019, 12, 12)) []
     [Str ''*|ABERAVON|West Glamorgan|Wales|Wales|50750'', Str ''2019-12-12'',
      Str ''Tory'', Num 1234]
   = ((Inr \<lparr>location = Location_init None (Some ''ABERAVON'') (Some ''West Glamorgan'')
                        (Some ''Wales'') (Some ''Wales'') (Some 50750),
             date = (2019, 12, 12),
             party = ''Conservative and Unionist Party'',
             party_contemporary_styling = ''Tory'',
             votes = 1234\<rparr>, []),
      [((Args (Str ''Tory'') [], [Warn_on_fuzzy_match True]),
        Some ''Conservative and Unionist Party'')])"
  by (simp add: vote_line_to_object_def from_raw_string_def wildcard_to_nonetype_def
      py_int_def is_ascii_def int_strip_def int_isspace_def nat_of_digits_def digit_val_def
      Let_def Location_init_def relabel_def official_def lru_cache_def official_function_def
      bind_official_def official_wrapped_def maxsize_def example_nicknames_def
      lower_ascii_def lower_char_ascii_def strip_ascii_def isspace_ascii_def int_of_cell_def)

text \<open>
  For a label that is a string \<open>names.official\<close> returns a name or raises: it returns
  \<open>None\<close> for a missing label only.
\<close>

lemma official_wrapped_None:
  "fst (official_wrapped lower strip T ex label a w e) = Inr None \<Longrightarrow> isna label"
  by (cases label)
     (auto simp: official_wrapped_def Let_def split: if_splits option.splits prod.splits)

text \<open>
  Claim C7, at the input where the code departs from it. \<open>names.official\<close> returns
  \<open>None\<close> only for a label that is missing (\<open>None\<close> or \<open>NaN\<close>), and then the line holds a
  cell that is not a string: \<open>"\t".join(line)\<close>, an argument of the exception
  \<open>DataLineUnreadable\<close>, raises \<open>TypeError\<close> before that exception exists. For every
  nickname table, fuzzy matcher and parser of dates, and whatever \<open>str.lower\<close>,
  \<open>str.strip\<close> and \<open>int\<close> do outside ASCII, the line of Aberavon with no party raises
  \<open>TypeError\<close>.
\<close>

theorem vote_line_missing_party_raises_TypeError:
  "vote_line_to_object lower strip int_unicode T ex strptime []
     [Str ''*|ABERAVON|West Glamorgan|Wales|Wales|50750'', Str ''2019-12-12'', NaN i, Num 1234]
   = ((Inl TypeError, []), [((Args (NaN i) [], [Warn_on_fuzzy_match True]), None)])"
  by (simp add: vote_line_to_object_def from_raw_string_def wildcard_to_nonetype_def
      py_int_def is_ascii_def int_strip_def int_isspace_def nat_of_digits_def digit_val_def
      Let_def Location_init_def relabel_def official_def lru_cache_def official_function_def
      bind_official_def official_wrapped_def tab_join_def maxsize_def)

section \<open>Properties of elections.py: the seats won\<close>

text \<open>
  The canonical string of a \<open>Location\<close> always splits into six pieces or more, so the
  comparison of a filter with a record never raises, and the list
  \<open>counts_for_this_date\<close> is the selection of the records.
\<close>

lemma str_split_prepend_length: "length (str_split sep s) \<le> length (str_split sep (x @ s))"
  by (induction x) (auto split: list.splits simp: str_split_nonempty)

lemma str_split_join_length:
  "xs \<noteq> [] \<Longrightarrow> length xs \<le> length (str_split sep (str_join sep xs))"
proof (induction sep xs rule: str_join.induct)
  case (1 sep)
  then show ?case by simp
next
  case (2 sep x)
  then show ?case using str_split_nonempty [of sep x] by (cases "str_split sep x") auto
next
  case (3 sep x y ys)
  have "length (str_split sep (sep # str_join sep (y # ys)))
        \<le> length (str_split sep (x @ sep # str_join sep (y # ys)))"
    by (rule str_split_prepend_length)
  with 3 show ?case by simp
qed

lemma contains_loop_total:
  "i + length props \<le> length pieces \<Longrightarrow> \<exists>b. contains_loop lower pieces i props = Inr b"
  by (induction lower pieces i props rule: contains_loop.induct) auto

lemma ge_Location_total: "\<exists>b. ge_Location lower F L = Inr b"
proof -
  have "repr_Location L = str_join CHR ''|'' (repr_pieces L)"
    by (simp add: repr_Location_def repr_pieces_def)
  moreover have "length (repr_pieces L) = 6"
    by (simp add: repr_pieces_def string_properties_list_def)
  moreover have "repr_pieces L \<noteq> []" by (simp add: repr_pieces_def)
  ultimately have "6 \<le> length (str_split CHR ''|'' (repr_Location L))"
    using str_split_join_length [of "repr_pieces L" "CHR ''|''"] by simp
  then show ?thesis
    unfolding ge_Location_def contains_loc_as_raw_string_def
    by (intro contains_loop_total) (simp add: string_properties_list_def)
qed

lemma counts_for_this_date_selected:
  "counts_for_this_date lower COUNTS F D = Inr (selected lower COUNTS F D)"
proof (induction COUNTS)
  case Nil
  then show ?case by (simp add: selected_def)
next
  case (Cons c COUNTS)
  obtain b where "ge_Location lower F (location c) = Inr b" using ge_Location_total by blast
  with Cons show ?case by (auto simp: selected_def)
qed






















text \<open>The example data: what is selected, and the seats.\<close>

lemma selected_example_wales: "selected lower_ascii example_counts
       (Location_init None None None None (Some ''wales'') None) (2019, 12, 12)
     = [\<lparr>location = aberavon, date = (2019, 12, 12), party = ''Labour Party'',
        party_contemporary_styling = ''Lab'', votes = 17008\<rparr>,
      \<lparr>location = aberavon, date = (2019, 12, 12),
        party = ''Conservative and Unionist Party'',
        party_contemporary_styling = ''Con'', votes = 6518\<rparr>]"
  by (simp add: selected_def example_counts_def ge_Location_def contains_loc_as_raw_string_def
      aberavon_def dundee_east_def repr_Location_def string_properties_list_def
      Location_init_def wildcard_if_none_def str_int_def str_nat.simps lower_ascii_def
      lower_char_ascii_def)

lemma seats_example_wales: "seats lower_ascii example_counts (2019, 12, 12)
       (Some (Location_init None None None None (Some ''wales'') None))
     = Inr [(aberavon, ''Labour Party'')]"
  by (simp add: seats_def counts_for_this_date_selected selected_example_wales locations_def set_add_def
      party_counts_def eq_Location_def)






end
